theory Spec2Isabelle
  imports Complex_Main
begin

section \<open>Python strings\<close>

text \<open>
  A Python \<open>str\<close> is modelled as a \<open>string\<close> whose characters are the code points
  below 256 (the Latin-1 block, which holds every character of the constant tables of the
  repository). The predicates below are Python's own classification of these code points.
\<close>

definition py_isspace :: "char \<Rightarrow> bool" where
  \<comment> \<open>\<open>str.isspace\<close>, the set \<open>str.strip()\<close> removes and the regular expression class \<open>\s\<close>\<close>
  "py_isspace c = (of_char c \<in> {9, 10, 11, 12, 13, 28, 29, 30, 31, 32, 133, 160 :: int})"

definition py_isdigit :: "char \<Rightarrow> bool" where
  \<comment> \<open>the regular expression class \<open>\d\<close> and the digits \<open>float()\<close> accepts\<close>
  "py_isdigit c = (48 \<le> (of_char c :: int) \<and> (of_char c :: int) \<le> 57)"

definition py_strip :: "string \<Rightarrow> string" where
  "py_strip s = rev (dropWhile py_isspace (rev (dropWhile py_isspace s)))"

definition py_lower_char :: "char \<Rightarrow> char" where
  "py_lower_char c =
     (let n = (of_char c :: int)
      in if (65 \<le> n \<and> n \<le> 90) \<or> (192 \<le> n \<and> n \<le> 222 \<and> n \<noteq> 215)
         then char_of (n + 32) else c)"

definition py_lower :: "string \<Rightarrow> string" where
  "py_lower s = map py_lower_char s"

definition py_remove :: "char \<Rightarrow> string \<Rightarrow> string" where
  \<comment> \<open>\<open>s.replace(c, "")\<close> for a one-character \<open>c\<close>\<close>
  "py_remove c s = filter (\<lambda>x. x \<noteq> c) s"

fun py_split :: "char \<Rightarrow> string \<Rightarrow> string list" where
  \<comment> \<open>\<open>s.split(c)\<close> for a one-character separator: always at least one piece\<close>
  "py_split c [] = [[]]"
| "py_split c (x # xs) =
     (if x = c then [] # py_split c xs
      else (case py_split c xs of p # ps \<Rightarrow> (x # p) # ps | [] \<Rightarrow> [[x]]))"

fun py_join :: "string \<Rightarrow> string list \<Rightarrow> string" where
  \<comment> \<open>\<open>sep.join(parts)\<close>\<close>
  "py_join sep [] = []"
| "py_join sep [p] = p"
| "py_join sep (p # q # ps) = p @ sep @ py_join sep (q # ps)"

definition py_truthy :: "string option \<Rightarrow> bool" where
  \<comment> \<open>truth value of an \<open>Optional[str]\<close>: \<open>None\<close> and the empty string are false\<close>
  "py_truthy v = (case v of None \<Rightarrow> False | Some s \<Rightarrow> s \<noteq> [])"

fun dict_get :: "(string \<times> string) list \<Rightarrow> string \<Rightarrow> string \<Rightarrow> string" where
  \<comment> \<open>\<open>d.get(k, default)\<close> on a dictionary literal\<close>
  "dict_get [] k d = d"
| "dict_get ((k', v) # kvs) k d = (if k' = k then v else dict_get kvs k d)"


section \<open>Filter translation for the open-data query (api\_scraper.py)\<close>

definition MODALIDAD_MAP :: "(string \<times> string) list" where
  "MODALIDAD_MAP =
    [(''1'',  ''Licitaci'' @ [CHR 0xF3] @ ''n p'' @ [CHR 0xFA] @ ''blica''),
     (''11'', ''Selecci'' @ [CHR 0xF3] @ ''n Abreviada de Menor Cuant'' @ [CHR 0xED] @ ''a''),
     (''9'',  ''Selecci'' @ [CHR 0xF3] @ ''n abreviada subasta inversa''),
     (''13'', ''M'' @ [CHR 0xED] @ ''nima cuant'' @ [CHR 0xED] @ ''a''),
     (''17'', ''Selecci'' @ [CHR 0xF3] @ ''n Abreviada servicios de Salud''),
     (''10'', ''Concurso de m'' @ [CHR 0xE9] @ ''ritos abierto''),
     (''12'', ''Contrataci'' @ [CHR 0xF3] @ ''n directa''),
     (''4'',  ''Contrataci'' @ [CHR 0xF3] @ ''n r'' @ [CHR 0xE9] @ ''gimen especial''),
     (''2'',  ''Contrataci'' @ [CHR 0xF3] @ ''n Directa (con ofertas)'')]"

definition DEPARTAMENTO_MAP :: "(string \<times> string) list" where
  "DEPARTAMENTO_MAP =
    [(''91000'', ''Amazonas''),
     (''5000'', ''Antioquia''),
     (''81000'', ''Arauca''),
     (''8000'', ''Atl'' @ [CHR 0xE1] @ ''ntico''),
     (''1100'', ''Bogot'' @ [CHR 0xE1] @ '' D.C.''),
     (''1300'', ''Bol'' @ [CHR 0xED] @ ''var''),
     (''15000'', ''Boyac'' @ [CHR 0xE1]),
     (''17000'', ''Caldas''),
     (''1800'', ''Caquet'' @ [CHR 0xE1]),
     (''85000'', ''Casanare''),
     (''19000'', ''Cauca''),
     (''20000'', ''Cesar''),
     (''27000'', ''Choc'' @ [CHR 0xF3]),
     (''23000'', ''C'' @ [CHR 0xF3] @ ''rdoba''),
     (''25000'', ''Cundinamarca''),
     (''94000'', ''Guain'' @ [CHR 0xED] @ ''a''),
     (''95000'', ''Guaviare''),
     (''41000'', ''Huila''),
     (''44000'', ''La Guajira''),
     (''47000'', ''Magdalena''),
     (''50000'', ''Meta''),
     (''52000'', ''Nari'' @ [CHR 0xF1] @ ''o''),
     (''54000'', ''Norte De Santander''),
     (''86000'', ''Putumayo''),
     (''63000'', ''Quind'' @ [CHR 0xED] @ ''o''),
     (''66000'', ''Risaralda''),
     (''88000'', ''San Andr'' @ [CHR 0xE9] @ ''s, Providencia y Santa Catalina''),
     (''668000'', ''Santander''),
     (''70000'', ''Sucre''),
     (''73000'', ''Tolima''),
     (''76000'', ''Valle del Cauca''),
     (''97000'', ''Vaup'' @ [CHR 0xE9] @ ''s''),
     (''99000'', ''Vichada'')]"

definition ESTADO_CELEBRADO_EQUIVALENTES :: "string list" where
  "ESTADO_CELEBRADO_EQUIVALENTES =
    [''Cerrado'', ''terminado'', ''En ejecuci'' @ [CHR 0xF3] @ ''n'', ''Modificado'',
     ''Prorrogado'', ''cedido'']"

text \<open>
  The \<open>modalidad\<close> argument is annotated \<open>Optional[str]\<close> but the function also accepts a
  list or tuple of codes, which it tells apart with \<open>isinstance\<close>.
\<close>

datatype modalidad_arg = ModStr string | ModList "string list"

definition quote :: "string \<Rightarrow> string" where
  \<comment> \<open>the f-string fragment \<open>'{x}'\<close>\<close>
  "quote x = [CHR 0x27] @ x @ [CHR 0x27]"

definition modalidad_truthy :: "modalidad_arg option \<Rightarrow> bool" where
  "modalidad_truthy m =
     (case m of None \<Rightarrow> False | Some (ModStr s) \<Rightarrow> s \<noteq> [] | Some (ModList l) \<Rightarrow> l \<noteq> [])"

definition cond_departamento :: "string option \<Rightarrow> string list" where
  "cond_departamento departamento =
     (if py_truthy departamento
      then [''departamento='' @ quote (dict_get DEPARTAMENTO_MAP (the departamento) (the departamento))]
      else [])"

definition cond_modalidad :: "modalidad_arg option \<Rightarrow> string list" where
  "cond_modalidad modalidad =
     (if modalidad_truthy modalidad
      then (case the modalidad of
              ModList ms \<Rightarrow>
                [''modalidad_de_contratacion in(''
                   @ py_join '','' (map (\<lambda>m. quote (dict_get MODALIDAD_MAP m m)) ms) @ '')'']
            | ModStr m \<Rightarrow>
                [''modalidad_de_contratacion='' @ quote (dict_get MODALIDAD_MAP m m)])
      else [])"

definition cond_estado :: "string option \<Rightarrow> string list" where
  "cond_estado estado =
     (if py_truthy estado
      then (if py_lower (the estado) = ''celebrado''
            then [''estado_contrato in(''
                    @ py_join '','' (map quote ESTADO_CELEBRADO_EQUIVALENTES) @ '')'']
            else [''estado_contrato='' @ quote (the estado)])
      else [])"

definition cond_palabra_clave :: "string option \<Rightarrow> string list" where
  "cond_palabra_clave palabra_clave =
     (if py_truthy palabra_clave
      then [''upper(objeto_del_contrato) like upper('' @ quote (''%'' @ the palabra_clave @ ''%'') @ '')'']
      else [])"

definition cond_fecha :: "string \<Rightarrow> string \<Rightarrow> string option \<Rightarrow> string list" where
  \<comment> \<open>\<open>dd/MM/yyyy\<close> to an ISO bound; a string without exactly three \<open>/\<close>-separated parts adds nothing\<close>
  "cond_fecha op hora fecha =
     (if py_truthy fecha
      then (case py_split (CHR ''/'') (the fecha) of
              [d, m, y] \<Rightarrow>
                [''fecha_de_inicio_del_contrato '' @ op @ '' ''
                   @ quote (y @ ''-'' @ m @ ''-'' @ d @ ''T'' @ hora)]
            | _ \<Rightarrow> [])
      else [])"

definition construir_where ::
  "string option \<Rightarrow> modalidad_arg option \<Rightarrow> string option \<Rightarrow> string option
     \<Rightarrow> string option \<Rightarrow> string option \<Rightarrow> string" where
  \<comment> \<open>\<open>_construir_where\<close>: the conditions are appended in this order and joined by \<open>AND\<close>\<close>
  "construir_where departamento modalidad estado palabra_clave fecha_inicio fecha_fin =
     py_join '' AND ''
       (cond_departamento departamento @ cond_modalidad modalidad @ cond_estado estado
          @ cond_palabra_clave palabra_clave
          @ cond_fecha ''>='' ''00:00:00'' fecha_inicio
          @ cond_fecha ''<='' ''23:59:59'' fecha_fin)"

definition SANTANDER_MINIMA_CELEBRADO_WHERE :: string where
  \<comment> \<open>the clause expected for \<open>SEARCH_SANTANDER_MINIMA_CELEBRADO\<close> of config.py\<close>
  "SANTANDER_MINIMA_CELEBRADO_WHERE =
     ''departamento='' @ [CHR 0x27] @ ''Santander'' @ [CHR 0x27]
     @ '' AND modalidad_de_contratacion='' @ [CHR 0x27]
     @ ''M'' @ [CHR 0xED] @ ''nima cuant'' @ [CHR 0xED] @ ''a'' @ [CHR 0x27]
     @ '' AND estado_contrato in(''
     @ [CHR 0x27] @ ''Cerrado'' @ [CHR 0x27] @ '',''
     @ [CHR 0x27] @ ''terminado'' @ [CHR 0x27] @ '',''
     @ [CHR 0x27] @ ''En ejecuci'' @ [CHR 0xF3] @ ''n'' @ [CHR 0x27] @ '',''
     @ [CHR 0x27] @ ''Modificado'' @ [CHR 0x27] @ '',''
     @ [CHR 0x27] @ ''Prorrogado'' @ [CHR 0x27] @ '',''
     @ [CHR 0x27] @ ''cedido'' @ [CHR 0x27] @ '')''"


section \<open>Currency conversion (cleaning.py)\<close>

text \<open>
  A Python \<open>float\<close> is modelled by the exact decimal value of the literal it was read
  from (\<open>float()\<close> returns the double nearest to that value, and a literal such as
  \<open>1234567.89\<close> in the documentation denotes the double nearest to it as well), or by
  one of the three special values. So \<open>Finite r\<close> stands for the double nearest to \<open>r\<close>;
  a literal too large for a double is read as an infinity.
\<close>

datatype pyfloat = Finite rat | PosInf | NegInf | FNaN

definition digit_val :: "char \<Rightarrow> int" where
  "digit_val c = of_char c - 48"

definition digits_value :: "string \<Rightarrow> int" where
  "digits_value s = foldl (\<lambda>a c. 10 * a + digit_val c) 0 s"

fun underscores_ok :: "char \<Rightarrow> string \<Rightarrow> bool" where
  \<comment> \<open>\<open>float()\<close> accepts an underscore only between two digits; the first argument is the
      previous character\<close>
  "underscores_ok prev [] = (prev \<noteq> CHR ''_'')"
| "underscores_ok prev (c # cs) =
     (if c = CHR ''_'' then py_isdigit prev \<and> underscores_ok c cs
      else if prev = CHR ''_'' then py_isdigit c \<and> underscores_ok c cs
      else underscores_ok c cs)"

definition py_sign :: "string \<Rightarrow> bool \<times> string" where
  \<comment> \<open>an optional sign: whether it is a minus, and the rest\<close>
  "py_sign s =
     (case s of [] \<Rightarrow> (False, [])
      | c # r \<Rightarrow> if c = CHR ''-'' then (True, r) else if c = CHR ''+'' then (False, r) else (False, s))"

definition scale10 :: "rat \<Rightarrow> int \<Rightarrow> rat" where
  "scale10 m e = (if 0 \<le> e then m * 10 ^ nat e else m / 10 ^ nat (- e))"

definition parse_exponent :: "string \<Rightarrow> int option" where
  \<comment> \<open>what follows the mantissa: nothing, or \<open>e\<close>, an optional sign and at least one digit\<close>
  "parse_exponent s =
     (case s of [] \<Rightarrow> Some 0
      | c # r \<Rightarrow>
          if c = CHR ''e'' \<or> c = CHR ''E''
          then (case py_sign r of (neg, ds) \<Rightarrow>
                  if ds = [] then None
                  else if list_all py_isdigit ds
                  then Some (if neg then - digits_value ds else digits_value ds)
                  else None)
          else None)"

definition parse_number :: "string \<Rightarrow> rat option" where
  \<comment> \<open>digits, an optional point, digits (at least one digit in all), an optional exponent\<close>
  "parse_number s =
     (let ip = takeWhile py_isdigit s;
          r1 = dropWhile py_isdigit s;
          has_point = (case r1 of [] \<Rightarrow> False | c # _ \<Rightarrow> c = CHR ''.'');
          fp = (if has_point then takeWhile py_isdigit (tl r1) else []);
          r2 = (if has_point then dropWhile py_isdigit (tl r1) else r1)
      in if ip = [] \<and> fp = [] then None
         else (case parse_exponent r2 of
                 None \<Rightarrow> None
               | Some e \<Rightarrow> Some (scale10 (of_int (digits_value (ip @ fp)) / 10 ^ length fp) e)))"

definition float_isspace :: "char \<Rightarrow> bool" where
  \<comment> \<open>the white space \<open>float()\<close> skips around a number: the ASCII white space, and the two
      Latin-1 spaces, which it reads as blanks (not the separators U+001C to U+001F, which
      \<open>str.strip()\<close> removes)\<close>
  "float_isspace c = (of_char c \<in> {9, 10, 11, 12, 13, 32, 133, 160 :: int})"

definition float_strip :: "string \<Rightarrow> string" where
  "float_strip s = rev (dropWhile float_isspace (rev (dropWhile float_isspace s)))"

definition limite_float :: rat where
  \<comment> \<open>halfway between the largest double and \<open>2 ^ 1024\<close>: from here on a value rounds to
      infinity\<close>
  "limite_float = (2 ^ 54 - 1) * 2 ^ 970"

definition a_float :: "bool \<Rightarrow> rat \<Rightarrow> pyfloat" where
  \<comment> \<open>the float read from a sign and the value of an unsigned literal\<close>
  "a_float neg r =
     (if limite_float \<le> r then (if neg then NegInf else PosInf)
      else Finite (if neg then - r else r))"

definition py_float :: "string \<Rightarrow> pyfloat option" where
  \<comment> \<open>\<open>float(x)\<close> for a \<open>str\<close>; \<open>None\<close> is \<open>ValueError\<close>\<close>
  "py_float x =
     (let s = float_strip x
      in if underscores_ok (CHR 0x00) s
         then (case py_sign (py_remove (CHR ''_'') s) of (neg, t) \<Rightarrow>
                 if py_lower t = ''inf'' \<or> py_lower t = ''infinity''
                 then Some (if neg then NegInf else PosInf)
                 else if py_lower t = ''nan'' then Some FNaN
                 else (case parse_number t of
                         None \<Rightarrow> None
                       | Some r \<Rightarrow> Some (a_float neg r)))
         else None)"

definition es_prefijo :: "char \<Rightarrow> bool" where
  \<comment> \<open>the class \<open>[^\d\-]\<close> of the prefix the function removes\<close>
  "es_prefijo c = (if py_isdigit c then False else c \<noteq> CHR ''-'')"

definition limpiar_prefijo :: "string \<Rightarrow> string" where
  \<comment> \<open>\<open>strip()\<close>, \<open>re.sub(r"^[^\d\-]*", "", s)\<close>, \<open>replace(" ", "")\<close>\<close>
  "limpiar_prefijo valor = py_remove (CHR '' '') (dropWhile es_prefijo (py_strip valor))"

definition partes_coma :: "string \<Rightarrow> string \<times> string" where
  \<comment> \<open>the comma branch: \<open>partes[0]\<close> without dots, and \<open>partes[1]\<close>\<close>
  "partes_coma s =
     (case py_split (CHR '','') s of
        p0 # p1 # _ \<Rightarrow> (py_remove (CHR ''.'') p0, p1)
      | [p0] \<Rightarrow> (py_remove (CHR ''.'') p0, ''0'')
      | [] \<Rightarrow> ([], ''0''))"

definition convertir_moneda_colombiana :: "string \<Rightarrow> pyfloat option" where
  \<comment> \<open>\<open>_convertir_moneda_colombiana\<close>; \<open>None\<close> is Python's \<open>None\<close>\<close>
  "convertir_moneda_colombiana valor =
     (if valor = [] \<or> py_strip valor = [] then None
      else let s = limpiar_prefijo valor
        in if s = [] then None
           else if CHR '','' \<in> set s
           then (case partes_coma s of (entero, decimal) \<Rightarrow> py_float (entero @ ''.'' @ decimal))
           else if CHR ''.'' \<in> set s
           then (let partes = py_split (CHR ''.'') s; ultima = last partes
                 in if length ultima \<le> 2 \<and> length partes > 1
                    then py_float (concat (butlast partes) @ ''.'' @ ultima)
                    else py_float (py_remove (CHR ''.'') s))
           else py_float s)"




section \<open>Data frames (pandas)\<close>

text \<open>
  A \<open>DataFrame\<close> is its column labels, one dtype per column and its rows, each row
  holding one cell per column. The row index is left out: every function below resets it
  before it returns. Columns are addressed by position; a label stands for the position of
  its first occurrence (the pipeline builds frames with unique labels).
\<close>

datatype dtype = DObject | DFloat64 | DDatetime64

datatype cell = PyNone | PyStr string | PyFloat pyfloat | PyTimestamp int | NaT

record dataframe =
  df_columns :: "string list"
  df_dtypes :: "dtype list"
  df_rows :: "cell list list"

definition isna :: "cell \<Rightarrow> bool" where
  \<comment> \<open>\<open>pd.isna\<close>\<close>
  "isna c = (case c of PyNone \<Rightarrow> True | NaT \<Rightarrow> True | PyFloat f \<Rightarrow> f = FNaN | _ \<Rightarrow> False)"

definition df_len :: "dataframe \<Rightarrow> nat" where
  "df_len df = length (df_rows df)"

definition df_empty :: "dataframe \<Rightarrow> bool" where
  \<comment> \<open>\<open>df.empty\<close>: some axis has length 0\<close>
  "df_empty df = (df_rows df = [] \<or> df_columns df = [])"

text \<open>
  What the repository takes from its libraries without defining it: the text of a finite
  float and of a timestamp, and pandas' date parser. They are parameters of the model.
\<close>

datatype fecha_result = FechaError | FechaNaT | Fecha int

record pylib =
  float_str :: "rat \<Rightarrow> string"
  timestamp_str :: "int \<Rightarrow> string"
  to_datetime :: "string option \<Rightarrow> string \<Rightarrow> fecha_result"
    \<comment> \<open>\<open>pd.Timestamp(pd.to_datetime(s, format=fmt))\<close>, and with \<open>None\<close> for the format
        \<open>pd.Timestamp(pd.to_datetime(s, dayfirst=True))\<close>; \<open>FechaError\<close> is \<open>ValueError\<close>
        or \<open>TypeError\<close>\<close>

definition py_str :: "pylib \<Rightarrow> cell \<Rightarrow> string" where
  \<comment> \<open>\<open>str(v)\<close>\<close>
  "py_str L c =
     (case c of
        PyNone \<Rightarrow> ''None''
      | PyStr s \<Rightarrow> s
      | PyFloat f \<Rightarrow>
          (case f of Finite r \<Rightarrow> float_str L r | PosInf \<Rightarrow> ''inf'' | NegInf \<Rightarrow> ''-inf'' | FNaN \<Rightarrow> ''nan'')
      | PyTimestamp t \<Rightarrow> timestamp_str L t
      | NaT \<Rightarrow> ''NaT'')"

definition object_positions :: "dataframe \<Rightarrow> nat list" where
  \<comment> \<open>\<open>df.select_dtypes(include=["object"]).columns\<close>, as positions\<close>
  "object_positions df = filter (\<lambda>i. df_dtypes df ! i = DObject) [0 ..< length (df_dtypes df)]"

definition col_pos :: "string \<Rightarrow> string list \<Rightarrow> nat" where
  \<comment> \<open>position of the first column with this label\<close>
  "col_pos c cols = length (takeWhile (\<lambda>x. x \<noteq> c) cols)"

definition get_col :: "nat \<Rightarrow> dataframe \<Rightarrow> cell list" where
  \<comment> \<open>\<open>df[col]\<close>\<close>
  "get_col i df = map (\<lambda>r. r ! i) (df_rows df)"

definition set_col :: "nat \<Rightarrow> dtype \<Rightarrow> cell list \<Rightarrow> dataframe \<Rightarrow> dataframe" where
  \<comment> \<open>\<open>df[col] = values\<close> for an existing column\<close>
  "set_col i d vs df =
     df\<lparr>df_dtypes := (df_dtypes df)[i := d],
        df_rows := map (\<lambda>(r, v). r[i := v]) (zip (df_rows df) vs)\<rparr>"

definition add_col :: "string \<Rightarrow> dtype \<Rightarrow> cell list \<Rightarrow> dataframe \<Rightarrow> dataframe" where
  \<comment> \<open>\<open>df[col] = values\<close> for a new label\<close>
  "add_col c d vs df =
     \<lparr>df_columns = df_columns df @ [c], df_dtypes = df_dtypes df @ [d],
      df_rows = map (\<lambda>(r, v). r @ [v]) (zip (df_rows df) vs)\<rparr>"

definition assign_col :: "string \<Rightarrow> dtype \<Rightarrow> cell list \<Rightarrow> dataframe \<Rightarrow> dataframe" where
  "assign_col c d vs df =
     (if c \<in> set (df_columns df) then set_col (col_pos c (df_columns df)) d vs df
      else add_col c d vs df)"


section \<open>Cleaning (cleaning.py)\<close>

subsection \<open>String normalisation\<close>

definition flush_run :: "nat \<Rightarrow> string \<Rightarrow> string \<Rightarrow> string" where
  \<comment> \<open>a finished run (held reversed) of at least \<open>n\<close> characters is replaced\<close>
  "flush_run n rep run = (if run = [] then [] else if n \<le> length run then rep else rev run)"

fun sub_runs :: "(char \<Rightarrow> bool) \<Rightarrow> nat \<Rightarrow> string \<Rightarrow> string \<Rightarrow> string \<Rightarrow> string" where
  \<comment> \<open>\<open>re.sub\<close> of a character class repeated at least \<open>n\<close> times: every maximal run of
      the class with at least \<open>n\<close> characters becomes \<open>rep\<close>\<close>
  "sub_runs P n rep run [] = flush_run n rep run"
| "sub_runs P n rep run (c # cs) =
     (if P c then sub_runs P n rep (c # run) cs
      else flush_run n rep run @ c # sub_runs P n rep [] cs)"

definition es_salto :: "char \<Rightarrow> bool" where
  \<comment> \<open>the class \<open>[\n\r\t]\<close>\<close>
  "es_salto c = (c = CHR 0x0A \<or> c = CHR 0x0D \<or> c = CHR 0x09)"

definition normalizar_string :: "pylib \<Rightarrow> cell \<Rightarrow> string" where
  \<comment> \<open>\<open>_normalizar_string\<close>\<close>
  "normalizar_string L valor =
     (if isna valor then []
      else py_strip (sub_runs py_isspace 2 '' '' [] (sub_runs es_salto 1 '' '' [] (py_str L valor))))"

definition map_col :: "(cell \<Rightarrow> cell) \<Rightarrow> dtype \<Rightarrow> nat \<Rightarrow> dataframe \<Rightarrow> dataframe" where
  \<comment> \<open>\<open>df[col] = df[col].map(f)\<close>, the result stored with dtype \<open>d\<close>\<close>
  "map_col f d i df = set_col i d (map f (get_col i df)) df"

definition normalizar_strings :: "pylib \<Rightarrow> dataframe \<Rightarrow> dataframe" where
  \<comment> \<open>the loop over the object columns; a column of strings keeps dtype object\<close>
  "normalizar_strings L df =
     fold (map_col (\<lambda>v. PyStr (normalizar_string L v)) DObject) (object_positions df) df"

subsection \<open>Money and date columns\<close>

definition COLUMNAS_RESULTADO :: "string list" where
  "COLUMNAS_RESULTADO =
     [''numero_proceso'', ''entidad'', ''objeto_contrato'', ''modalidad'', ''fecha_apertura'',
      ''fecha_cierre'', ''cuantia'', ''estado'', ''departamento'', ''municipio'']"

definition COLUMNAS_MONETARIAS :: "string list" where
  "COLUMNAS_MONETARIAS = [''cuantia'', ''valor_estimado'', ''valor_adjudicado'', ''valor_contrato'']"

definition COLUMNAS_FECHA :: "string list" where
  "COLUMNAS_FECHA = [''fecha_apertura'', ''fecha_cierre'', ''fecha_adjudicacion'', ''fecha_contrato'']"

definition moneda_celdas :: "pyfloat option list \<Rightarrow> dtype \<times> cell list" where
  \<comment> \<open>the column pandas builds from what \<open>map\<close> returned: with a float among the results
      the column is float64 and \<open>None\<close> becomes NaN; otherwise it stays an object column\<close>
  "moneda_celdas rs =
     (if list_ex (\<lambda>r. r \<noteq> None) rs
      then (DFloat64, map (\<lambda>r. case r of None \<Rightarrow> PyFloat FNaN | Some f \<Rightarrow> PyFloat f) rs)
      else (DObject, map (\<lambda>r. PyNone) rs))"

definition convertir_columna_monetaria :: "pylib \<Rightarrow> nat \<Rightarrow> dataframe \<Rightarrow> dataframe" where
  \<comment> \<open>\<open>df[col] = df[col].astype(str).map(_convertir_moneda_colombiana)\<close>\<close>
  "convertir_columna_monetaria L i df =
     (case moneda_celdas (map (\<lambda>v. convertir_moneda_colombiana (py_str L v)) (get_col i df)) of
        (d, vs) \<Rightarrow> set_col i d vs df)"

definition cols_presentes :: "string list \<Rightarrow> dataframe \<Rightarrow> nat list" where
  \<comment> \<open>\<open>[c for c in COLUMNAS if c in df.columns]\<close>, as positions\<close>
  "cols_presentes cs df =
     map (\<lambda>c. col_pos c (df_columns df)) (filter (\<lambda>c. c \<in> set (df_columns df)) cs)"

definition convertir_columnas_monetarias :: "pylib \<Rightarrow> dataframe \<Rightarrow> dataframe" where
  "convertir_columnas_monetarias L df =
     fold (convertir_columna_monetaria L) (cols_presentes COLUMNAS_MONETARIAS df) df"

definition FORMATOS_FECHA :: "string list" where
  "FORMATOS_FECHA =
     [''%d/%m/%Y'', ''%d-%m-%Y'', ''%Y-%m-%d'', ''%d/%m/%Y %H:%M'', ''%d/%m/%Y %H:%M:%S'',
      ''%Y-%m-%dT%H:%M:%S'']"

fun probar_formatos :: "pylib \<Rightarrow> string list \<Rightarrow> string \<Rightarrow> cell" where
  \<comment> \<open>the loop over the formats, then pandas' own inference, then \<open>None\<close>\<close>
  "probar_formatos L [] s =
     (case to_datetime L None s of FechaError \<Rightarrow> PyNone | FechaNaT \<Rightarrow> NaT | Fecha t \<Rightarrow> PyTimestamp t)"
| "probar_formatos L (fmt # fmts) s =
     (case to_datetime L (Some fmt) s of
        FechaError \<Rightarrow> probar_formatos L fmts s
      | FechaNaT \<Rightarrow> NaT
      | Fecha t \<Rightarrow> PyTimestamp t)"

definition parsear_fecha :: "pylib \<Rightarrow> string \<Rightarrow> cell" where
  \<comment> \<open>\<open>_parsear_fecha\<close>\<close>
  "parsear_fecha L valor =
     (if valor = [] \<or> py_strip valor = [] then PyNone
      else probar_formatos L FORMATOS_FECHA (py_strip valor))"

definition fecha_celdas :: "cell list \<Rightarrow> dtype \<times> cell list" where
  \<comment> \<open>with a timestamp among the results the column is datetime64 and \<open>None\<close> becomes NaT\<close>
  "fecha_celdas rs =
     (if list_ex (\<lambda>r. case r of PyTimestamp _ \<Rightarrow> True | _ \<Rightarrow> False) rs
      then (DDatetime64, map (\<lambda>r. if isna r then NaT else r) rs)
      else (DObject, rs))"

definition convertir_columna_fecha :: "pylib \<Rightarrow> nat \<Rightarrow> dataframe \<Rightarrow> dataframe" where
  "convertir_columna_fecha L i df =
     (case fecha_celdas (map (\<lambda>v. parsear_fecha L (py_str L v)) (get_col i df)) of
        (d, vs) \<Rightarrow> set_col i d vs df)"

definition convertir_columnas_fecha :: "pylib \<Rightarrow> dataframe \<Rightarrow> dataframe" where
  "convertir_columnas_fecha L df =
     fold (convertir_columna_fecha L) (cols_presentes COLUMNAS_FECHA df) df"

subsection \<open>Empty rows\<close>

definition dropna_all :: "dataframe \<Rightarrow> dataframe" where
  \<comment> \<open>\<open>df.dropna(how="all", inplace=True)\<close>\<close>
  "dropna_all df = df\<lparr>df_rows := filter (\<lambda>r. if list_all isna r then False else True) (df_rows df)\<rparr>"

definition fila_strings_vacios :: "pylib \<Rightarrow> nat list \<Rightarrow> cell list \<Rightarrow> bool" where
  \<comment> \<open>\<open>all(str(v).strip() == "" for v in row)\<close> over the object columns\<close>
  "fila_strings_vacios L cols_str r = list_all (\<lambda>i. py_strip (py_str L (r ! i)) = []) cols_str"

definition quitar_vacios :: "pylib \<Rightarrow> dataframe \<Rightarrow> dataframe" where
  \<comment> \<open>\<open>df[~mask_vacios]\<close>: the rows whose mask is false. (How pandas builds the mask of a
      frame without rows is not modelled; no row is left either way.)\<close>
  "quitar_vacios L df =
     df\<lparr>df_rows :=
          filter (\<lambda>r. if fila_strings_vacios L (object_positions df) r then False else True) (df_rows df)\<rparr>"

definition eliminar_filas_vacias :: "pylib \<Rightarrow> dataframe \<Rightarrow> dataframe" where
  "eliminar_filas_vacias L df =
     (let df1 = dropna_all df
      in if object_positions df1 = [] then df1 else quitar_vacios L df1)"

subsection \<open>Column renaming and the whole pipeline\<close>

datatype exn_class =
    SecopError | SecopTimeoutError | SecopRecaptchaError | SecopIframeError
  | SecopEmptyTableError | SecopFormError | SecopPaginationError | SecopParsingError
  | SecopExportError | ValueError | InvalidIndexError | UnboundLocalError | OtherException

datatype ctx_val = CtxInt nat | CtxList "string list"

datatype exn = Exn (exn_class: exn_class) (exn_message: string) (exn_context: "(string \<times> ctx_val) list")

definition startswith :: "string \<Rightarrow> string \<Rightarrow> bool" where
  \<comment> \<open>\<open>s.startswith(p)\<close>\<close>
  "startswith p s = (take (length p) s = p)"

definition renombrar_columnas :: "(string \<times> string) list \<Rightarrow> dataframe \<Rightarrow> exn + dataframe" where
  \<comment> \<open>\<open>mapeo\<close> is the optional dictionary, empty for \<open>None\<close>. Assigning
      \<open>COLUMNAS_RESULTADO[:n]\<close> to the columns of a frame with more than ten columns is
      pandas' length-mismatch \<open>ValueError\<close>.\<close>
  "renombrar_columnas mapeo df =
     (if mapeo \<noteq> [] then Inr (df\<lparr>df_columns := map (\<lambda>c. dict_get mapeo c c) (df_columns df)\<rparr>)
      else if df_columns df = COLUMNAS_RESULTADO then Inr df
      else if list_all (startswith ''col_'') (df_columns df)
      then (if length (take (length (df_columns df)) COLUMNAS_RESULTADO) = length (df_columns df)
            then Inr (df\<lparr>df_columns := take (length (df_columns df)) COLUMNAS_RESULTADO\<rparr>)
            else Inl (Exn ValueError ''Length mismatch'' []))
      else Inr df)"

definition limpiar_dataframe :: "pylib \<Rightarrow> (string \<times> string) list \<Rightarrow> dataframe \<Rightarrow> exn + dataframe" where
  "limpiar_dataframe L mapeo_columnas df =
     (case renombrar_columnas mapeo_columnas (eliminar_filas_vacias L (normalizar_strings L df)) of
        Inl e \<Rightarrow> Inl e
      | Inr df3 \<Rightarrow> Inr (convertir_columnas_fecha L (convertir_columnas_monetarias L df3)))"


subsection \<open>Well-formed frames and blank fields\<close>

definition celda_tipada :: "dtype \<Rightarrow> cell \<Rightarrow> bool" where
  \<comment> \<open>an object column holds anything; a float64 column floats; a datetime64 column
      timestamps and NaT\<close>
  "celda_tipada d c =
     (case d of
        DObject \<Rightarrow> True
      | DFloat64 \<Rightarrow> (case c of PyFloat _ \<Rightarrow> True | _ \<Rightarrow> False)
      | DDatetime64 \<Rightarrow> (case c of PyTimestamp _ \<Rightarrow> True | NaT \<Rightarrow> True | _ \<Rightarrow> False))"

definition bien_formado :: "dataframe \<Rightarrow> bool" where
  \<comment> \<open>one dtype per label, and every row holds one cell of the column's dtype per column\<close>
  "bien_formado df =
     (length (df_dtypes df) = length (df_columns df)
      \<and> list_all (\<lambda>r. list_all2 celda_tipada (df_dtypes df) r) (df_rows df))"

definition blank_or_null :: "cell \<Rightarrow> bool" where
  \<comment> \<open>a field that is null, or a string that is empty once stripped\<close>
  "blank_or_null c = (case c of PyStr s \<Rightarrow> py_strip s = [] | _ \<Rightarrow> isna c)"

definition lib_ejemplo :: pylib where
  \<comment> \<open>a library instance for the concrete examples, none of which reads it\<close>
  "lib_ejemplo = \<lparr>float_str = (\<lambda>r. ''0.0''), timestamp_str = (\<lambda>t. ''1970-01-01 00:00:00''),
                   to_datetime = (\<lambda>fmt s. FechaError)\<rparr>"

definition df_texto_y_numero :: dataframe where
  \<comment> \<open>\<open>pd.DataFrame({"a": [""], "b": [5.0]})\<close>\<close>
  "df_texto_y_numero =
     \<lparr>df_columns = [''a'', ''b''], df_dtypes = [DObject, DFloat64],
      df_rows = [[PyStr [], PyFloat (Finite 5)]]\<rparr>"


definition df_dos_textos :: dataframe where
  \<comment> \<open>\<open>pd.DataFrame({"a": ["  ", " x "], "b": [None, None]})\<close>\<close>
  "df_dos_textos =
     \<lparr>df_columns = [''a'', ''b''], df_dtypes = [DObject, DObject],
      df_rows = [[PyStr ''  '', PyNone], [PyStr '' x '', PyNone]]\<rparr>"




section \<open>The cleaning functions on objects\<close>













section \<open>Joining and deduplicating frames (pandas)\<close>

definition cell_key :: "cell \<Rightarrow> cell" where
  \<comment> \<open>duplicate detection takes all nulls for one value\<close>
  "cell_key c = (if isna c then PyNone else c)"

fun keep_first :: "('a \<Rightarrow> 'k) \<Rightarrow> 'k list \<Rightarrow> 'a list \<Rightarrow> 'a list" where
  \<comment> \<open>keep a row unless its key was seen before\<close>
  "keep_first key seen [] = []"
| "keep_first key seen (r # rs) =
     (if key r \<in> set seen then keep_first key seen rs
      else r # keep_first key (key r # seen) rs)"

fun keep_last :: "('a \<Rightarrow> 'k) \<Rightarrow> 'a list \<Rightarrow> 'a list" where
  \<comment> \<open>keep a row unless its key comes again later\<close>
  "keep_last key [] = []"
| "keep_last key (r # rs) =
     (if key r \<in> set (map key rs) then keep_last key rs else r # keep_last key rs)"

definition drop_duplicates :: "dataframe \<Rightarrow> dataframe" where
  \<comment> \<open>\<open>df.drop_duplicates()\<close>: whole rows, the first occurrence kept\<close>
  "drop_duplicates df = df\<lparr>df_rows := keep_first (map cell_key) [] (df_rows df)\<rparr>"



fun union_labels :: "string list \<Rightarrow> string list \<Rightarrow> string list" where
  \<comment> \<open>the labels of all frames, in order of first appearance\<close>
  "union_labels seen [] = []"
| "union_labels seen (c # cs) =
     (if c \<in> set seen then union_labels seen cs else c # union_labels (c # seen) cs)"

definition fill_value :: "dtype \<Rightarrow> cell" where
  \<comment> \<open>what a frame without the column contributes\<close>
  "fill_value d = (if d = DDatetime64 then NaT else PyFloat FNaN)"

definition label_dtype :: "dataframe list \<Rightarrow> string \<Rightarrow> dtype" where
  \<comment> \<open>the common dtype of the frames that have the column, object when they disagree\<close>
  "label_dtype frames c =
     (case remdups (map (\<lambda>f. df_dtypes f ! col_pos c (df_columns f))
                     (filter (\<lambda>f. c \<in> set (df_columns f)) frames)) of
        [d] \<Rightarrow> d
      | _ \<Rightarrow> DObject)"

definition realign :: "dataframe list \<Rightarrow> string list \<Rightarrow> dataframe \<Rightarrow> cell list list" where
  "realign frames cols f =
     map (\<lambda>r. map (\<lambda>c. if c \<in> set (df_columns f) then r ! col_pos c (df_columns f)
                         else fill_value (label_dtype frames c)) cols)
         (df_rows f)"

definition position_dtype :: "dataframe list \<Rightarrow> nat \<Rightarrow> dtype" where
  "position_dtype frames i =
     (case remdups (map (\<lambda>f. df_dtypes f ! i) frames) of [d] \<Rightarrow> d | _ \<Rightarrow> DObject)"

definition mismas_columnas :: "dataframe list \<Rightarrow> bool" where
  \<comment> \<open>all frames carry the labels of the first\<close>
  "mismas_columnas frames =
     (case frames of [] \<Rightarrow> True | f0 # _ \<Rightarrow> list_all (\<lambda>f. df_columns f = df_columns f0) frames)"

definition concat_columns :: "dataframe list \<Rightarrow> string list" where
  "concat_columns frames =
     (if mismas_columnas frames then (case frames of [] \<Rightarrow> [] | f0 # _ \<Rightarrow> df_columns f0)
      else union_labels [] (concat (map df_columns frames)))"

definition concat_dtypes :: "dataframe list \<Rightarrow> dtype list" where
  "concat_dtypes frames =
     (if mismas_columnas frames
      then map (position_dtype frames) [0 ..< length (concat_columns frames)]
      else map (label_dtype frames) (concat_columns frames))"

definition alinear :: "dataframe list \<Rightarrow> dataframe \<Rightarrow> cell list list" where
  \<comment> \<open>the rows a frame contributes: as they are when all frames have the same labels,
      otherwise aligned on the union of the labels\<close>
  "alinear frames f =
     (if mismas_columnas frames then df_rows f else realign frames (concat_columns frames) f)"

definition pd_concat :: "dataframe list \<Rightarrow> exn + dataframe" where
  \<comment> \<open>\<open>pd.concat(frames, ignore_index=True)\<close>. Frames with the same labels are stacked; frames
      with different labels are aligned on the union of their labels, which pandas can
      only do when no frame repeats a label.\<close>
  "pd_concat frames =
     (if frames = [] then Inl (Exn ValueError ''No objects to concatenate'' [])
      else if mismas_columnas frames then
        Inr \<lparr>df_columns = concat_columns frames, df_dtypes = concat_dtypes frames,
             df_rows = concat (map (alinear frames) frames)\<rparr>
      else if list_all (\<lambda>f. distinct (df_columns f)) frames then
        Inr \<lparr>df_columns = concat_columns frames, df_dtypes = concat_dtypes frames,
             df_rows = concat (map (alinear frames) frames)\<rparr>
      else Inl (Exn InvalidIndexError ''Reindexing only valid with uniquely valued Index objects'' []))"


section \<open>Table extraction (parser.py)\<close>

text \<open>
  A parsed document is represented by what BeautifulSoup answers to the queries the
  parser makes: the tables of the document in document order; for a table its CSS classes,
  the header cells of its \<open>thead\<close> and the rows of its \<open>tbody\<close> when it has one, and all
  its rows; for a row the texts (\<open>get_text(strip=True)\<close>) of its \<open>th\<close> and of its \<open>td\<close>
  cells and the \<open>href\<close> of its links. \<open>urljoin\<close> is a parameter.
\<close>

record tr_tag =
  tr_th :: "string list"
  tr_td :: "string list"
  tr_href :: "string list"

record table_tag =
  tabla_class :: "string list"
  tabla_thead :: "string list option"
  tabla_tbody :: "tr_tag list option"
  tabla_tr :: "tr_tag list"

record soup =
  html_length :: nat
  soup_tables :: "table_tag list"

definition SECOP_BASE_URL :: string where
  "SECOP_BASE_URL = ''https://www.contratos.gov.co''"

definition clase_css :: string where
  \<comment> \<open>\<open>SEL_TABLA_RESULTADOS.replace("table.", "")\<close>\<close>
  "clase_css = ''tbl_resulados''"

definition tabla_mayor :: "table_tag \<Rightarrow> table_tag list \<Rightarrow> table_tag" where
  \<comment> \<open>\<open>max(tablas, key=...)\<close>: the first table with the most rows\<close>
  "tabla_mayor t ts =
     foldl (\<lambda>best x. if length (tabla_tr best) < length (tabla_tr x) then x else best) t ts"

definition encontrar_tabla :: "soup \<Rightarrow> table_tag option" where
  \<comment> \<open>\<open>_encontrar_tabla\<close>\<close>
  "encontrar_tabla sp =
     (case find (\<lambda>t. clase_css \<in> set (tabla_class t)) (soup_tables sp) of
        Some t \<Rightarrow> Some t
      | None \<Rightarrow>
          (case soup_tables sp of
             [] \<Rightarrow> None
           | t # ts \<Rightarrow> if 1 < length (tabla_tr (tabla_mayor t ts)) then Some (tabla_mayor t ts)
                        else Some t))"

definition es_alfanum :: "char \<Rightarrow> bool" where
  \<comment> \<open>the class \<open>[a-z0-9]\<close> with the accented vowels, n tilde and u diaeresis\<close>
  "es_alfanum c =
     ((97 \<le> (of_char c :: int) \<and> (of_char c :: int) \<le> 122) \<or> py_isdigit c
      \<or> of_char c \<in> {0xE1, 0xE9, 0xED, 0xF3, 0xFA, 0xF1, 0xFC :: int})"

definition strip_char :: "char \<Rightarrow> string \<Rightarrow> string" where
  \<comment> \<open>\<open>s.strip(c)\<close>\<close>
  "strip_char c s = rev (dropWhile (\<lambda>x. x = c) (rev (dropWhile (\<lambda>x. x = c) s)))"

definition normalizar_encabezado :: "string \<Rightarrow> string" where
  "normalizar_encabezado h =
     strip_char (CHR ''_'')
       (sub_runs (\<lambda>c. c = CHR ''_'') 1 ''_'' []
          (sub_runs (\<lambda>c. if es_alfanum c then False else True) 1 ''_'' [] (py_strip (py_lower h))))"

definition extraer_encabezados :: "table_tag \<Rightarrow> string list" where
  \<comment> \<open>\<open>_extraer_encabezados\<close>\<close>
  "extraer_encabezados t =
     (let de_thead = (case tabla_thead t of None \<Rightarrow> [] | Some ths \<Rightarrow> ths);
          encabezados =
            (if de_thead = []
             then (case tabla_tr t of [] \<Rightarrow> [] | primera_fila # _ \<Rightarrow> tr_th primera_fila)
             else de_thead)
      in map normalizar_encabezado encabezados)"

definition contenedor :: "table_tag \<Rightarrow> tr_tag list" where
  \<comment> \<open>the rows of \<open>tabla.find("tbody") or tabla\<close> that have a \<open>td\<close>\<close>
  "contenedor t =
     filter (\<lambda>tr. tr_td tr \<noteq> []) (case tabla_tbody t of None \<Rightarrow> tabla_tr t | Some trs \<Rightarrow> trs)"

definition extraer_filas :: "table_tag \<Rightarrow> string list list" where
  \<comment> \<open>\<open>_extraer_filas\<close>: rows whose cells are all empty are skipped\<close>
  "extraer_filas t =
     filter (\<lambda>fila. if list_all (\<lambda>c. c = []) fila then False else True) (map tr_td (contenedor t))"

fun py_contains :: "string \<Rightarrow> string \<Rightarrow> bool" where
  \<comment> \<open>\<open>sub in s\<close>\<close>
  "py_contains sub [] = (sub = [])"
| "py_contains sub (c # cs) = (if startswith sub (c # cs) then True else py_contains sub cs)"

definition es_detalle :: "string \<Rightarrow> bool" where
  "es_detalle href = (py_contains ''detalleProceso'' href \<or> py_contains ''detalle'' (py_lower href))"

definition extraer_urls_detalle_html :: "(string \<Rightarrow> string \<Rightarrow> string) \<Rightarrow> table_tag \<Rightarrow> cell list" where
  \<comment> \<open>\<open>_extraer_urls_detalle_html\<close>\<close>
  "extraer_urls_detalle_html urljoin t =
     map (\<lambda>tr. case find es_detalle (tr_href tr) of
                  None \<Rightarrow> PyNone
                | Some href \<Rightarrow> PyStr (urljoin SECOP_BASE_URL href))
         (contenedor t)"

fun py_str_nat :: "nat \<Rightarrow> string" where
  \<comment> \<open>\<open>str(i)\<close> for a natural number\<close>
  "py_str_nat n =
     (if n < 10 then [char_of (48 + n)] else py_str_nat (n div 10) @ [char_of (48 + n mod 10)])"

definition coerce_fila :: "nat \<Rightarrow> string list \<Rightarrow> string list" where
  \<comment> \<open>pad with empty strings or truncate to the number of columns\<close>
  "coerce_fila num_cols fila =
     (if length fila < num_cols then fila @ replicate (num_cols - length fila) []
      else take num_cols fila)"

definition parsear_pagina :: "(string \<Rightarrow> string \<Rightarrow> string) \<Rightarrow> soup \<Rightarrow> exn + dataframe" where
  "parsear_pagina urljoin sp =
     (case encontrar_tabla sp of
        None \<Rightarrow>
          Inl (Exn SecopParsingError
                 (''No se encontr'' @ [CHR 0xF3] @ '' tabla de resultados en el HTML.'')
                 [(''html_length'', CtxInt (html_length sp))])
      | Some tabla \<Rightarrow>
          (let encabezados = extraer_encabezados tabla;
               filas = extraer_filas tabla
           in case filas of
                [] \<Rightarrow>
                  Inl (Exn SecopParsingError ''Tabla encontrada pero sin filas de datos.''
                         [(''encabezados'', CtxList encabezados)])
              | fila0 # _ \<Rightarrow>
                  (let num_cols = length fila0;
                       columnas =
                         (if encabezados \<noteq> [] \<and> length encabezados = num_cols then encabezados
                          else if num_cols \<le> length COLUMNAS_RESULTADO
                          then take num_cols COLUMNAS_RESULTADO
                          else map (\<lambda>i. ''col_'' @ py_str_nat i) [0 ..< num_cols]);
                       df = \<lparr>df_columns = columnas, df_dtypes = replicate num_cols DObject,
                             df_rows = map (\<lambda>f. map PyStr (coerce_fila num_cols f)) filas\<rparr>;
                       urls = extraer_urls_detalle_html urljoin tabla
                   in Inr (assign_col ''url_detalle'' DObject
                             (if urls \<noteq> [] \<and> length urls = length filas then urls
                              else replicate (length filas) PyNone)
                             df))))"

fun recorrer_paginas ::
  "(string \<Rightarrow> string \<Rightarrow> string) \<Rightarrow> soup list \<Rightarrow> exn + (dataframe list \<times> nat)" where
  \<comment> \<open>the loop over the pages: the frames parsed and the number of parsing errors; only
      \<open>SecopParsingError\<close> is caught\<close>
  "recorrer_paginas urljoin [] = Inr ([], 0)"
| "recorrer_paginas urljoin (html # resto) =
     (case parsear_pagina urljoin html of
        Inr df_pagina \<Rightarrow>
          (case recorrer_paginas urljoin resto of
             Inl e \<Rightarrow> Inl e
           | Inr (dataframes, errores) \<Rightarrow> Inr (df_pagina # dataframes, errores))
      | Inl exc \<Rightarrow>
          if exn_class exc = SecopParsingError
          then (case recorrer_paginas urljoin resto of
                  Inl e \<Rightarrow> Inl e
                | Inr (dataframes, errores) \<Rightarrow> Inr (dataframes, Suc errores))
          else Inl exc)"

definition parsear_todas_paginas ::
  "(string \<Rightarrow> string \<Rightarrow> string) \<Rightarrow> soup list \<Rightarrow> exn + dataframe" where
  "parsear_todas_paginas urljoin paginas_html =
     (if paginas_html = []
      then Inl (Exn SecopEmptyTableError
                  (''No se recibieron p'' @ [CHR 0xE1] @ ''ginas HTML para parsear.'') [])
      else (case recorrer_paginas urljoin paginas_html of
              Inl e \<Rightarrow> Inl e
            | Inr (dataframes, errores) \<Rightarrow>
                if dataframes = []
                then Inl (Exn SecopEmptyTableError
                            (''Ninguna de las '' @ py_str_nat (length paginas_html) @ '' p''
                               @ [CHR 0xE1] @ ''ginas produjo datos ('' @ py_str_nat errores
                               @ '' errores de parsing).'') [])
                else (case pd_concat dataframes of
                        Inl e \<Rightarrow> Inl e
                      | Inr df_consolidado \<Rightarrow> Inr (drop_duplicates df_consolidado))))"



definition soup_dos_filas :: soup where
  \<comment> \<open>a page with two data rows, the second a repetition of the first\<close>
  "soup_dos_filas =
     \<lparr>html_length = 200,
      soup_tables =
        [\<lparr>tabla_class = [''tbl_resulados''], tabla_thead = None, tabla_tbody = None,
          tabla_tr =
            [\<lparr>tr_th = [''Proceso'', ''Entidad''], tr_td = [], tr_href = []\<rparr>,
             \<lparr>tr_th = [], tr_td = [''2023-OP-005'', ''UNIVERSIDAD''],
              tr_href = [''/consultas/detalleProceso.do?id=5'']\<rparr>,
             \<lparr>tr_th = [], tr_td = [''2023-OP-005'', ''UNIVERSIDAD''],
              tr_href = [''/consultas/detalleProceso.do?id=5'']\<rparr>]\<rparr>]\<rparr>"

definition urljoin_ejemplo :: "string \<Rightarrow> string \<Rightarrow> string" where
  \<comment> \<open>joins a base and a path that starts with a slash, as in the examples\<close>
  "urljoin_ejemplo base href = base @ href"


section \<open>Historical store (detail\_scraper.py)\<close>



definition nuevos_ejemplo :: dataframe where
  "nuevos_ejemplo =
     \<lparr>df_columns = [''numero_proceso'', ''estado''], df_dtypes = [DObject, DObject],
      df_rows = [[PyStr ''P-1'', PyStr ''Adjudicado''], [PyStr ''P-3'', PyStr ''Convocado'']]\<rparr>"


section \<open>The search run (main.py)\<close>

text \<open>
  What the run does outside the repository's own computations is given by a world: whether
  creating the browser driver, scraping, closing the driver, querying the open-data
  service, writing the CSV file and updating the historical store raise, and what they
  return. Page consolidation and cleaning are parameters too, so that the run can be
  studied for every behaviour of theirs. An error is a Python \<open>Exception\<close>, which is what
  the two \<open>except Exception\<close> clauses catch. \<open>cerrar_driver\<close> catches
  \<open>WebDriverException\<close> only, so another error of \<open>driver.quit()\<close> leaves it.
\<close>

record mundo =
  m_crear_driver :: "exn option"
  m_ejecutar_scraping :: "exn + soup list"
  m_parsear_todas_paginas :: "soup list \<Rightarrow> exn + dataframe"
  m_limpiar_dataframe :: "dataframe \<Rightarrow> exn + dataframe"
  m_cerrar_driver :: "exn option"
  m_consultar_desde_params :: "exn + dataframe"
  m_to_csv :: "exn option"
  m_historica :: bool
  m_actualizar_base_historica :: "exn option"

datatype evento =
    CrearDriver
  | CerrarDriver
  | LogFalloSelenium exn
  | ConsultarApi
  | LogErrorApi exn
  | AvisoSinResultados
  | InformeFallo exn exn
  | Exportar dataframe
  | ActualizarHistorica

datatype salida = Retorna int | Lanza exn

record locales =
  df_limpio :: "dataframe option"
  exc_selenium :: "exn option"
  eventos :: "evento list"

definition bloque_scraping :: "mundo \<Rightarrow> dataframe option \<times> exn option" where
  \<comment> \<open>the inner \<open>try\<close>: the frame assigned to \<open>df_limpio\<close>, if the assignment is reached, and
      the error raised, if any\<close>
  "bloque_scraping m =
     (case m_ejecutar_scraping m of
        Inl e \<Rightarrow> (None, Some e)
      | Inr paginas_html \<Rightarrow>
          (case m_parsear_todas_paginas m paginas_html of
             Inl e \<Rightarrow> (None, Some e)
           | Inr df_crudo \<Rightarrow>
               (case m_limpiar_dataframe m df_crudo of
                  Inl e \<Rightarrow> (None, Some e)
                | Inr limpio \<Rightarrow> (Some limpio, None))))"

definition intento_selenium :: "mundo \<Rightarrow> dataframe option \<times> exn option \<times> evento list" where
  \<comment> \<open>the outer \<open>try\<close>: \<open>df_limpio\<close>, the error that reaches \<open>except Exception\<close>, and the
      calls made. An error raised by \<open>cerrar_driver\<close> in the \<open>finally\<close> clause replaces a
      pending one.\<close>
  "intento_selenium m =
     (case m_crear_driver m of
        Some e \<Rightarrow> (None, Some e, [CrearDriver])
      | None \<Rightarrow>
          (case bloque_scraping m of (df, exc) \<Rightarrow>
             (case m_cerrar_driver m of
                Some e \<Rightarrow> (df, Some e, [CrearDriver, CerrarDriver])
              | None \<Rightarrow> (df, exc, [CrearDriver, CerrarDriver]))))"

definition tras_selenium :: "mundo \<Rightarrow> locales" where
  \<comment> \<open>the local variables after the first \<open>try\<close> statement. Python unbinds the name of
      \<open>except ... as exc_selenium\<close> when the clause ends, and without an error the name
      was never bound: either way \<open>exc_selenium\<close> has no value afterwards.\<close>
  "tras_selenium m =
     (case intento_selenium m of (df, exc, evs) \<Rightarrow>
        \<lparr>df_limpio = df, exc_selenium = None,
         eventos = evs @ (case exc of None \<Rightarrow> [] | Some e \<Rightarrow> [LogFalloSelenium e])\<rparr>)"

definition necesita_api :: "dataframe option \<Rightarrow> bool" where
  \<comment> \<open>\<open>df_limpio is None or df_limpio.empty\<close>\<close>
  "necesita_api df = (case df of None \<Rightarrow> True | Some d \<Rightarrow> df_empty d)"

definition exportar :: "mundo \<Rightarrow> dataframe \<Rightarrow> evento list \<Rightarrow> salida \<times> evento list" where
  \<comment> \<open>\<open>to_csv\<close>, the optional update of the historical store, the summary\<close>
  "exportar m df evs =
     (case m_to_csv m of
        Some e \<Rightarrow> (Lanza e, evs @ [Exportar df])
      | None \<Rightarrow>
          if m_historica m
          then (case m_actualizar_base_historica m of
                  Some e \<Rightarrow> (Lanza e, evs @ [Exportar df, ActualizarHistorica])
                | None \<Rightarrow> (Retorna 0, evs @ [Exportar df, ActualizarHistorica]))
          else (Retorna 0, evs @ [Exportar df]))"

definition manejar_error_api :: "locales \<Rightarrow> exn \<Rightarrow> salida \<times> evento list" where
  \<comment> \<open>the clause \<open>except Exception as exc_api\<close>: the error is logged, then the message
      with both causes is formatted, which reads \<open>exc_selenium\<close>\<close>
  "manejar_error_api loc exc_api =
     (case exc_selenium loc of
        None \<Rightarrow>
          (Lanza (Exn UnboundLocalError ''exc_selenium'' []),
           eventos loc @ [ConsultarApi, LogErrorApi exc_api])
      | Some e \<Rightarrow>
          (Retorna 1, eventos loc @ [ConsultarApi, LogErrorApi exc_api, InformeFallo e exc_api]))"

definition via_api :: "mundo \<Rightarrow> locales \<Rightarrow> salida \<times> evento list" where
  \<comment> \<open>the second \<open>try\<close> statement and what follows it\<close>
  "via_api m loc =
     (case m_consultar_desde_params m of
        Inl exc_api \<Rightarrow> manejar_error_api loc exc_api
      | Inr df_api \<Rightarrow>
          if df_empty df_api
          then (Retorna 0, eventos loc @ [ConsultarApi, AvisoSinResultados])
          else (case m_limpiar_dataframe m df_api of
                  Inl exc_api \<Rightarrow> manejar_error_api loc exc_api
                | Inr limpio \<Rightarrow> exportar m limpio (eventos loc @ [ConsultarApi])))"

definition ejecutar_modo_busqueda :: "mundo \<Rightarrow> salida \<times> evento list" where
  \<comment> \<open>the open-data service is queried \<open>if df_limpio is None or df_limpio.empty\<close>\<close>
  "ejecutar_modo_busqueda m =
     (let loc = tras_selenium m
      in case df_limpio loc of
           None \<Rightarrow> via_api m loc
         | Some limpio \<Rightarrow>
             if df_empty limpio then via_api m loc else exportar m limpio (eventos loc))"

definition llamadas_api :: "salida \<times> evento list \<Rightarrow> nat" where
  \<comment> \<open>how many times the run called the open-data service\<close>
  "llamadas_api r = length (filter (\<lambda>e. e = ConsultarApi) (snd r))"

definition exportado :: "salida \<times> evento list \<Rightarrow> bool" where
  "exportado r = list_ex (\<lambda>e. case e of Exportar _ \<Rightarrow> True | _ \<Rightarrow> False) (snd r)"

definition informa_ambas_causas :: "salida \<times> evento list \<Rightarrow> bool" where
  \<comment> \<open>the run printed the message that names the Selenium cause and the API cause\<close>
  "informa_ambas_causas r =
     list_ex (\<lambda>e. case e of InformeFallo _ _ \<Rightarrow> True | _ \<Rightarrow> False) (snd r)"

definition error_red :: exn where
  \<comment> \<open>an error that is not a \<open>WebDriverException\<close>, such as urllib3's when the driver
      process no longer answers\<close>
  "error_red = Exn OtherException ''MaxRetryError'' []"

definition mundo_base :: mundo where
  \<comment> \<open>the browser delivers one page with data, consolidation and cleaning are the
      repository's, the open-data service has one record, nothing raises\<close>
  "mundo_base =
     \<lparr>m_crear_driver = None,
      m_ejecutar_scraping = Inr [soup_dos_filas],
      m_parsear_todas_paginas = parsear_todas_paginas urljoin_ejemplo,
      m_limpiar_dataframe = limpiar_dataframe lib_ejemplo [],
      m_cerrar_driver = None,
      m_consultar_desde_params = Inr nuevos_ejemplo,
      m_to_csv = None,
      m_historica = False,
      m_actualizar_base_historica = None\<rparr>"

definition df_sin_filas :: dataframe where
  "df_sin_filas = \<lparr>df_columns = [''numero_proceso''], df_dtypes = [DObject], df_rows = []\<rparr>"

definition mundo_cierre_falla :: mundo where
  \<comment> \<open>as \<open>mundo_base\<close>, but closing the driver raises\<close>
  "mundo_cierre_falla = mundo_base\<lparr>m_cerrar_driver := Some error_red\<rparr>"

definition mundo_api_vacia :: mundo where
  \<comment> \<open>the driver cannot be created and the open-data service has no record\<close>
  "mundo_api_vacia =
     mundo_base\<lparr>m_crear_driver := Some error_red, m_consultar_desde_params := Inr df_sin_filas\<rparr>"

definition mundo_api_falla :: mundo where
  \<comment> \<open>the driver cannot be created and the open-data service raises\<close>
  "mundo_api_falla =
     mundo_base\<lparr>m_crear_driver := Some error_red, m_consultar_desde_params := Inl error_red\<rparr>"

definition mundo_selenium_vacio :: mundo where
  \<comment> \<open>the browser path succeeds and cleaning leaves no row\<close>
  "mundo_selenium_vacio = mundo_base\<lparr>m_limpiar_dataframe := (\<lambda>d. Inr df_sin_filas)\<rparr>"


section \<open>Theorems\<close>

subsection \<open>Filter translation\<close>

lemma dict_get_departamento_668000:
  "dict_get DEPARTAMENTO_MAP ''668000'' d = ''Santander''"
  by (simp add: DEPARTAMENTO_MAP_def)

lemma dict_get_modalidad_13:
  "dict_get MODALIDAD_MAP ''13'' d = ''M'' @ [CHR 0xED] @ ''nima cuant'' @ [CHR 0xED] @ ''a''"
  by (simp add: MODALIDAD_MAP_def)

text \<open>
  C8. Department code 668000 is translated to the name Santander and modality code 13 to
  the name M\'inima cuant\'ia; every status that lower-cases to \<open>celebrado\<close> becomes an
  IN-clause over the six equivalent states, whatever the other filters are; and the whole
  clause built for the three filters together is the expected one.
\<close>

theorem construir_where_santander_minima_celebrado:
  "cond_departamento (Some ''668000'') = [''departamento='' @ quote ''Santander'']
   \<and> cond_modalidad (Some (ModStr ''13''))
       = [''modalidad_de_contratacion='' @ quote (''M'' @ [CHR 0xED] @ ''nima cuant'' @ [CHR 0xED] @ ''a'')]
   \<and> (\<forall>estado. py_lower estado = ''celebrado'' \<longrightarrow>
         cond_estado (Some estado)
           = [''estado_contrato in('' @ py_join '','' (map quote ESTADO_CELEBRADO_EQUIVALENTES) @ '')''])
   \<and> length ESTADO_CELEBRADO_EQUIVALENTES = 6
   \<and> py_lower ''Celebrado'' = ''celebrado''
   \<and> construir_where (Some ''668000'') (Some (ModStr ''13'')) (Some ''Celebrado'') None None None
       = SANTANDER_MINIMA_CELEBRADO_WHERE"
proof -
  have e: "cond_estado (Some estado)
        = [''estado_contrato in('' @ py_join '','' (map quote ESTADO_CELEBRADO_EQUIVALENTES) @ '')'']"
    if "py_lower estado = ''celebrado''" for estado
  proof -
    from that have "estado \<noteq> []" by (auto simp: py_lower_def)
    with that show ?thesis by (simp add: cond_estado_def py_truthy_def)
  qed
  have l: "py_lower ''Celebrado'' = ''celebrado''"
    by code_simp
  have d: "cond_departamento (Some ''668000'') = [''departamento='' @ quote ''Santander'']"
    by (simp add: cond_departamento_def py_truthy_def dict_get_departamento_668000)
  have m: "cond_modalidad (Some (ModStr ''13''))
       = [''modalidad_de_contratacion='' @ quote (''M'' @ [CHR 0xED] @ ''nima cuant'' @ [CHR 0xED] @ ''a'')]"
    by (simp add: cond_modalidad_def modalidad_truthy_def dict_get_modalidad_13)
  have w: "construir_where (Some ''668000'') (Some (ModStr ''13'')) (Some ''Celebrado'') None None None
       = SANTANDER_MINIMA_CELEBRADO_WHERE"
    unfolding construir_where_def d m e [OF l]
    by (simp add: cond_palabra_clave_def cond_fecha_def py_truthy_def quote_def
        ESTADO_CELEBRADO_EQUIVALENTES_def SANTANDER_MINIMA_CELEBRADO_WHERE_def)
  show ?thesis using e l d m w by (simp add: ESTADO_CELEBRADO_EQUIVALENTES_def)
qed

theorem construir_where_santander_minima_celebrado_witness:
  "py_lower ''CELEBRADO'' = ''celebrado''
   \<and> cond_estado (Some ''CELEBRADO'')
       = [''estado_contrato in('' @ py_join '','' (map quote ESTADO_CELEBRADO_EQUIVALENTES) @ '')'']"
proof -
  have l: "py_lower ''CELEBRADO'' = ''celebrado''"
    by code_simp
  from construir_where_santander_minima_celebrado l show ?thesis by blast
qed

subsection \<open>Currency conversion\<close>









lemma sin_digitos_ni_signo_none:
  assumes "\<forall>c \<in> set valor. \<not> py_isdigit c \<and> c \<noteq> CHR ''-''"
  shows "convertir_moneda_colombiana valor = None"
proof -
  have "set (py_strip valor) \<subseteq> set valor"
    unfolding py_strip_def by (metis set_rev set_dropWhileD subsetI)
  with assms have "\<forall>c \<in> set (py_strip valor). es_prefijo c"
    by (auto simp: es_prefijo_def)
  hence d: "dropWhile es_prefijo (py_strip valor) = []" by simp
  have "limpiar_prefijo valor = []" unfolding limpiar_prefijo_def d by (simp add: py_remove_def)
  thus ?thesis by (simp add: convertir_moneda_colombiana_def Let_def)
qed

text \<open>
  C3. The two documented examples convert to 1234567890.0 and 1234567.89, and the empty
  string and a string such as \<open>N/A\<close> convert to null. But a string without any digit is
  not always converted to null: \<open>-inf\<close> passes the prefix removal (a minus sign is kept),
  has neither comma nor dot, and \<open>float()\<close> reads it as negative infinity, which the
  function returns.
\<close>

theorem convertir_moneda_colombiana_menos_inf:
  "convertir_moneda_colombiana ''$1.234.567.890'' = Some (Finite 1234567890)
   \<and> convertir_moneda_colombiana ''$1.234.567,89'' = Some (Finite 1234567.89)
   \<and> convertir_moneda_colombiana [] = None
   \<and> convertir_moneda_colombiana ''N/A'' = None
   \<and> list_all (\<lambda>c. if py_isdigit c then False else True) ''-inf''
   \<and> convertir_moneda_colombiana ''-inf'' = Some NegInf"
  by code_simp

subsection \<open>Empty-row elimination\<close>

lemma zip_map_update:
  "map (\<lambda>(r, v). r[i := v]) (zip rows (map g rows)) = map (\<lambda>r. r[i := g r]) rows"
  by (induction rows) auto

lemma map_col_rows:
  "df_rows (map_col f d i df) = map (\<lambda>r. r[i := f (r ! i)]) (df_rows df)"
  by (simp add: map_col_def set_col_def get_col_def zip_map_update [where g = "\<lambda>r. f (r ! i)", simplified] comp_def)

lemma map_col_dtypes: "df_dtypes (map_col f d i df) = (df_dtypes df)[i := d]"
  by (simp add: map_col_def set_col_def)



lemma fold_map_col_dtypes:
  "\<forall>i \<in> set is. df_dtypes df ! i = d \<Longrightarrow> df_dtypes (fold (map_col f d) is df) = df_dtypes df"
proof (induction "is" arbitrary: df)
  case Nil
  then show ?case by simp
next
  case (Cons a "is")
  have e: "df_dtypes (map_col f d a df) = df_dtypes df"
    using Cons.prems by (simp add: map_col_dtypes) (metis list_update_id)
  from Cons.prems have "\<forall>i \<in> set is. df_dtypes (map_col f d a df) ! i = d"
    by (simp add: e)
  from Cons.IH [OF this] show ?case by (simp add: e)
qed

lemma fold_map_col_rows:
  "df_rows (fold (map_col f d) is df) = map (fold (\<lambda>i r. r[i := f (r ! i)]) is) (df_rows df)"
  by (induction "is" arbitrary: df) (simp_all add: map_col_rows comp_def)

lemma fold_update_length: "length (fold (\<lambda>i r. r[i := f (r ! i)]) is r) = length r"
  by (induction "is" arbitrary: r) simp_all

lemma fold_update_nth:
  "distinct is \<Longrightarrow> j < length r \<Longrightarrow>
     fold (\<lambda>i r. r[i := f (r ! i)]) is r ! j = (if j \<in> set is then f (r ! j) else r ! j)"
proof (induction "is" arbitrary: r)
  case Nil
  then show ?case by simp
next
  case (Cons i "is")
  let ?r = "r[i := f (r ! i)]"
  from Cons.prems have d: "distinct is" and n: "i \<notin> set is" and j: "j < length ?r" by simp_all
  have "fold (\<lambda>i r. r[i := f (r ! i)]) (i # is) r ! j = fold (\<lambda>i r. r[i := f (r ! i)]) is ?r ! j"
    by simp
  also have "\<dots> = (if j \<in> set is then f (?r ! j) else ?r ! j)"
    by (rule Cons.IH [OF d j])
  also have "\<dots> = (if j \<in> set (i # is) then f (r ! j) else r ! j)"
  proof (cases "j = i")
    case True
    with n Cons.prems(2) show ?thesis by simp
  next
    case False
    hence "?r ! j = r ! j" by simp
    with False show ?thesis by simp
  qed
  finally show ?case .
qed

lemma object_positions_set:
  "i \<in> set (object_positions df) \<longleftrightarrow> i < length (df_dtypes df) \<and> df_dtypes df ! i = DObject"
  by (auto simp: object_positions_def)

lemma object_positions_distinct: "distinct (object_positions df)"
  by (simp add: object_positions_def)

lemma normalizar_strings_dtypes: "df_dtypes (normalizar_strings L df) = df_dtypes df"
  unfolding normalizar_strings_def
  by (rule fold_map_col_dtypes) (simp add: object_positions_set)


lemma normalizar_strings_objects:
  "object_positions (normalizar_strings L df) = object_positions df"
  by (simp add: object_positions_def normalizar_strings_dtypes)

lemma normalizar_strings_rows:
  "df_rows (normalizar_strings L df)
     = map (fold (\<lambda>i r. r[i := PyStr (normalizar_string L (r ! i))]) (object_positions df)) (df_rows df)"
  by (simp add: normalizar_strings_def fold_map_col_rows)

lemma normalizar_strings_row:
  assumes wf: "bien_formado df" and r: "r \<in> set (df_rows (normalizar_strings L df))"
  shows "length r = length (df_dtypes df)"
    and "\<forall>i \<in> set (object_positions df). \<exists>s. r ! i = PyStr s"
    and "\<forall>i < length r. i \<notin> set (object_positions df) \<longrightarrow> celda_tipada (df_dtypes df ! i) (r ! i)"
proof -
  let ?g = "fold (\<lambda>i r. r[i := PyStr (normalizar_string L (r ! i))]) (object_positions df)"
  from r obtain r0 where r0: "r0 \<in> set (df_rows df)" and e: "r = ?g r0"
    by (auto simp: normalizar_strings_rows)
  from wf r0 have t: "list_all2 celda_tipada (df_dtypes df) r0"
    by (auto simp: bien_formado_def list_all_iff)
  hence l0: "length r0 = length (df_dtypes df)" by (simp add: list_all2_lengthD)
  show l: "length r = length (df_dtypes df)" by (simp add: e l0 fold_update_length [where f = "\<lambda>v. PyStr (normalizar_string L v)"])
  show "\<forall>i \<in> set (object_positions df). \<exists>s. r ! i = PyStr s"
  proof
    fix i assume i: "i \<in> set (object_positions df)"
    hence "i < length r0" by (simp add: object_positions_set l0)
    from fold_update_nth [OF object_positions_distinct this, where f = "\<lambda>v. PyStr (normalizar_string L v)"] i
    show "\<exists>s. r ! i = PyStr s" by (simp add: e)
  qed
  show "\<forall>i < length r. i \<notin> set (object_positions df) \<longrightarrow> celda_tipada (df_dtypes df ! i) (r ! i)"
  proof (intro allI impI)
    fix i assume i: "i < length r" and n: "i \<notin> set (object_positions df)"
    from i have i0: "i < length r0" by (simp add: l l0)
    from fold_update_nth [OF object_positions_distinct i0, where f = "\<lambda>v. PyStr (normalizar_string L v)"] n
    have "r ! i = r0 ! i" by (simp add: e)
    moreover from t i0 have "celda_tipada (df_dtypes df ! i) (r0 ! i)"
      by (simp add: list_all2_nthD2)
    ultimately show "celda_tipada (df_dtypes df ! i) (r ! i)" by simp
  qed
qed

lemma eliminar_filas_vacias_rows:
  "df_rows (eliminar_filas_vacias L df) =
     (if object_positions df = []
      then filter (\<lambda>r. \<not> list_all isna r) (df_rows df)
      else filter (\<lambda>r. \<not> fila_strings_vacios L (object_positions df) r)
             (filter (\<lambda>r. \<not> list_all isna r) (df_rows df)))"
proof -
  have o: "object_positions (dropna_all df) = object_positions df"
    by (simp add: object_positions_def dropna_all_def)
  have [simp]: "(if b then False else True) = (\<not> b)" for b by simp
  show ?thesis
    by (simp add: eliminar_filas_vacias_def Let_def o quitar_vacios_def)
       (simp add: dropna_all_def)
qed

lemma no_tipada_blank:
  assumes "d \<noteq> DObject" "celda_tipada d c"
  shows "blank_or_null c = isna c"
  using assms by (cases d; cases c) (simp_all add: celda_tipada_def blank_or_null_def)

text \<open>
  C9 (as amended). Take a row of a well-formed frame after string normalisation. If every
  field is blank or null, the empty-row elimination removes the row. If at least one field
  of a text (object) column is non-blank, the row is retained; in a frame without text
  columns it is retained when some field is non-null. In particular, in a frame whose
  columns are all text columns (what the parser and the open-data query deliver) a row
  with at least one non-blank field is retained.
\<close>

theorem eliminar_filas_vacias_tras_normalizar:
  assumes wf: "bien_formado df" and r: "r \<in> set (df_rows (normalizar_strings L df))"
  shows "(list_all blank_or_null r \<longrightarrow>
            r \<notin> set (df_rows (eliminar_filas_vacias L (normalizar_strings L df))))
       \<and> ((\<exists>i \<in> set (object_positions df). \<not> blank_or_null (r ! i)) \<longrightarrow>
            r \<in> set (df_rows (eliminar_filas_vacias L (normalizar_strings L df))))
       \<and> (object_positions df = [] \<and> \<not> list_all isna r \<longrightarrow>
            r \<in> set (df_rows (eliminar_filas_vacias L (normalizar_strings L df))))
       \<and> (list_all (\<lambda>d. d = DObject) (df_dtypes df) \<and> \<not> list_all blank_or_null r \<longrightarrow>
            r \<in> set (df_rows (eliminar_filas_vacias L (normalizar_strings L df))))"
proof -
  let ?objs = "object_positions df"
  let ?res = "df_rows (eliminar_filas_vacias L (normalizar_strings L df))"
  note len = normalizar_strings_row(1) [OF wf r]
  note str = normalizar_strings_row(2) [OF wf r]
  note tip = normalizar_strings_row(3) [OF wf r]
  have res: "r \<in> set ?res \<longleftrightarrow>
      (if ?objs = [] then \<not> list_all isna r
       else \<not> fila_strings_vacios L ?objs r \<and> \<not> list_all isna r)"
    using r by (auto simp: eliminar_filas_vacias_rows normalizar_strings_objects)
  have mask: "fila_strings_vacios L ?objs r \<longleftrightarrow> (\<forall>i \<in> set ?objs. blank_or_null (r ! i))"
  proof -
    have "py_strip (py_str L (r ! i)) = [] \<longleftrightarrow> blank_or_null (r ! i)" if "i \<in> set ?objs" for i
    proof -
      from str that obtain s where "r ! i = PyStr s" by blast
      thus ?thesis by (simp add: py_str_def blank_or_null_def)
    qed
    thus ?thesis by (auto simp: fila_strings_vacios_def list_all_iff)
  qed
  have notna: "\<not> list_all isna r" if "?objs \<noteq> []"
  proof -
    from that obtain i where i: "i \<in> set ?objs" by (cases ?objs) auto
    hence il: "i < length r" by (simp add: object_positions_set len)
    from str i obtain s where "r ! i = PyStr s" by blast
    hence "\<not> isna (r ! i)" by (simp add: isna_def)
    with il show ?thesis by (auto simp: list_all_length)
  qed
  have c1: "list_all blank_or_null r \<longrightarrow> r \<notin> set ?res"
  proof
    assume b: "list_all blank_or_null r"
    show "r \<notin> set ?res"
    proof (cases "?objs = []")
      case True
      have "isna (r ! i)" if "i < length r" for i
      proof -
        from True have "i \<notin> set ?objs" by simp
        with tip that have t: "celda_tipada (df_dtypes df ! i) (r ! i)" by blast
        from True that have "df_dtypes df ! i \<noteq> DObject"
          using object_positions_set [of i df] by (simp add: len)
        from no_tipada_blank [OF this t] b that show ?thesis by (simp add: list_all_length)
      qed
      hence "list_all isna r" by (simp add: list_all_length)
      with True show ?thesis by (simp add: res)
    next
      case False
      have "\<forall>i \<in> set ?objs. blank_or_null (r ! i)"
        using b by (auto simp: list_all_length object_positions_set len)
      with False show ?thesis by (simp add: res mask)
    qed
  qed
  have c2: "(\<exists>i \<in> set ?objs. \<not> blank_or_null (r ! i)) \<longrightarrow> r \<in> set ?res"
  proof
    assume e: "\<exists>i \<in> set ?objs. \<not> blank_or_null (r ! i)"
    hence ne: "?objs \<noteq> []" by auto
    from e have "\<not> fila_strings_vacios L ?objs r" by (simp add: mask)
    with ne notna show "r \<in> set ?res" by (simp add: res)
  qed
  have c3: "?objs = [] \<and> \<not> list_all isna r \<longrightarrow> r \<in> set ?res"
    by (simp add: res)
  have c4: "list_all (\<lambda>d. d = DObject) (df_dtypes df) \<and> \<not> list_all blank_or_null r \<longrightarrow> r \<in> set ?res"
  proof
    assume a: "list_all (\<lambda>d. d = DObject) (df_dtypes df) \<and> \<not> list_all blank_or_null r"
    then obtain i where i: "i < length r" and nb: "\<not> blank_or_null (r ! i)"
      by (auto simp: list_all_length)
    from a i have "i \<in> set ?objs" by (simp add: object_positions_set len list_all_length)
    with nb c2 show "r \<in> set ?res" by blast
  qed
  from c1 c2 c3 c4 show ?thesis by blast
qed


theorem eliminar_filas_vacias_tras_normalizar_witness:
  "bien_formado df_dos_textos
   \<and> [PyStr [], PyStr []] \<in> set (df_rows (normalizar_strings lib_ejemplo df_dos_textos))
   \<and> list_all blank_or_null [PyStr [], PyStr []]
   \<and> [PyStr [], PyStr []]
        \<notin> set (df_rows (eliminar_filas_vacias lib_ejemplo (normalizar_strings lib_ejemplo df_dos_textos)))
   \<and> [PyStr ''x'', PyStr []] \<in> set (df_rows (normalizar_strings lib_ejemplo df_dos_textos))
   \<and> [PyStr ''x'', PyStr []]
        \<in> set (df_rows (eliminar_filas_vacias lib_ejemplo (normalizar_strings lib_ejemplo df_dos_textos)))"
proof -
  have w: "bien_formado df_dos_textos" by code_simp
  have n: "df_rows (normalizar_strings lib_ejemplo df_dos_textos) = [[PyStr [], PyStr []], [PyStr ''x'', PyStr []]]"
    by code_simp
  have a: "[PyStr [], PyStr []] \<in> set (df_rows (normalizar_strings lib_ejemplo df_dos_textos))"
    and b: "[PyStr ''x'', PyStr []] \<in> set (df_rows (normalizar_strings lib_ejemplo df_dos_textos))"
    by (simp_all add: n)
  have v: "list_all blank_or_null [PyStr [], PyStr []]" by code_simp
  have o: "0 \<in> set (object_positions df_dos_textos)" by code_simp
  have x: "\<not> blank_or_null ([PyStr ''x'', PyStr []] ! 0)" by code_simp
  from eliminar_filas_vacias_tras_normalizar [OF w a] v
  have 1: "[PyStr [], PyStr []]
        \<notin> set (df_rows (eliminar_filas_vacias lib_ejemplo (normalizar_strings lib_ejemplo df_dos_textos)))"
    by blast
  from eliminar_filas_vacias_tras_normalizar [OF w b] o x
  have 2: "[PyStr ''x'', PyStr []]
        \<in> set (df_rows (eliminar_filas_vacias lib_ejemplo (normalizar_strings lib_ejemplo df_dos_textos)))"
    by blast
  from w a v 1 b 2 show ?thesis by blast
qed

text \<open>
  The claim as stated fails on a frame with a text and a numeric column: the row
  \<open>("", 5.0)\<close> has a non-blank field and is removed, because its only text field is empty.
\<close>

theorem eliminar_filas_vacias_columna_numerica:
  "bien_formado df_texto_y_numero
   \<and> [PyStr [], PyFloat (Finite 5)] \<in> set (df_rows (normalizar_strings lib_ejemplo df_texto_y_numero))
   \<and> \<not> blank_or_null (PyFloat (Finite 5))
   \<and> [PyStr [], PyFloat (Finite 5)]
        \<notin> set (df_rows (eliminar_filas_vacias lib_ejemplo (normalizar_strings lib_ejemplo df_texto_y_numero)))"
  by code_simp

subsection \<open>Money columns\<close>











subsection \<open>The cleaning functions leave their argument alone\<close>














subsection \<open>Table extraction and consolidation\<close>

lemma keep_first_append:
  "keep_first key seen (xs @ ys)
     = keep_first key seen xs @ keep_first key (rev (map key (keep_first key seen xs)) @ seen) ys"
  by (induction xs arbitrary: seen) simp_all

lemma keep_first_all_seen:
  "\<forall>y \<in> set ys. key y \<in> set seen \<Longrightarrow> keep_first key seen ys = []"
  by (induction ys) simp_all

lemma keep_first_keys:
  "x \<in> set xs \<Longrightarrow> key x \<in> set (map key (keep_first key seen xs)) \<union> set seen"
proof (induction xs arbitrary: seen)
  case Nil
  then show ?case by simp
next
  case (Cons r rs)
  show ?case
  proof (cases "x = r")
    case True
    then show ?thesis by auto
  next
    case False
    with Cons.prems have x: "x \<in> set rs" by simp
    show ?thesis
    proof (cases "key r \<in> set seen")
      case True
      with Cons.IH [OF x, of seen] show ?thesis by simp
    next
      case False
      with Cons.IH [OF x, of "key r # seen"] show ?thesis by auto
    qed
  qed
qed

lemma keep_first_twice: "keep_first key [] (xs @ xs) = keep_first key [] xs"
proof -
  have "\<forall>y \<in> set xs. key y \<in> set (rev (map key (keep_first key [] xs)) @ [])"
    using keep_first_keys [of _ xs key "[]"] by auto
  hence "keep_first key (rev (map key (keep_first key [] xs)) @ []) xs = []"
    by (rule keep_first_all_seen)
  thus ?thesis by (simp add: keep_first_append)
qed

lemma keep_first_distinct:
  "distinct (map key (keep_first key seen xs)) \<and> set (map key (keep_first key seen xs)) \<inter> set seen = {}"
proof (induction xs arbitrary: seen)
  case Nil
  then show ?case by simp
next
  case (Cons r rs)
  show ?case
  proof (cases "key r \<in> set seen")
    case True
    with Cons.IH [of seen] show ?thesis by simp
  next
    case False
    from Cons.IH [of "key r # seen"]
    have d: "distinct (map key (keep_first key (key r # seen) rs))"
      and i: "set (map key (keep_first key (key r # seen) rs)) \<inter> set (key r # seen) = {}"
      by simp_all
    from i have "key r \<notin> set (map key (keep_first key (key r # seen) rs))"
      and "set (map key (keep_first key (key r # seen) rs)) \<inter> set seen = {}"
      by auto
    with False d show ?thesis by auto
  qed
qed

lemma parsear_todas_una:
  assumes "parsear_pagina urljoin p = Inr df"
  shows "parsear_todas_paginas urljoin [p]
     = Inr \<lparr>df_columns = df_columns df,
            df_dtypes = map (position_dtype [df]) [0 ..< length (df_columns df)],
            df_rows = keep_first (map cell_key) [] (df_rows df)\<rparr>"
  using assms
  by (simp add: parsear_todas_paginas_def pd_concat_def drop_duplicates_def mismas_columnas_def
      concat_columns_def concat_dtypes_def alinear_def)

lemma parsear_todas_dos:
  assumes "parsear_pagina urljoin p = Inr df"
  shows "parsear_todas_paginas urljoin [p, p]
     = Inr \<lparr>df_columns = df_columns df,
            df_dtypes = map (position_dtype [df, df]) [0 ..< length (df_columns df)],
            df_rows = keep_first (map cell_key) [] (df_rows df)\<rparr>"
  using assms
  by (simp add: parsear_todas_paginas_def pd_concat_def drop_duplicates_def keep_first_twice
      mismas_columnas_def concat_columns_def concat_dtypes_def alinear_def)

lemma position_dtype_twice: "position_dtype [df, df] i = position_dtype [df] i"
  by (simp add: position_dtype_def)




text \<open>
  C6. For a page that single-page extraction accepts, consolidating the page twice gives
  the very frame that consolidating it once gives: the same rows (so the same number of
  rows, and of distinct rows), and no row of it repeats another.
\<close>

theorem consolidar_pagina_repetida:
  "parsear_pagina urljoin p = Inr df \<longrightarrow>
     (\<exists>c1 c2. parsear_todas_paginas urljoin [p] = Inr c1
        \<and> parsear_todas_paginas urljoin [p, p] = Inr c2
        \<and> c2 = c1
        \<and> df_len c2 = df_len c1
        \<and> card (set (df_rows c2)) = card (set (df_rows c1))
        \<and> distinct (map (map cell_key) (df_rows c1)))"
proof
  assume a: "parsear_pagina urljoin p = Inr df"
  let ?c = "\<lparr>df_columns = df_columns df,
            df_dtypes = map (position_dtype [df]) [0 ..< length (df_columns df)],
            df_rows = keep_first (map cell_key) [] (df_rows df)\<rparr>"
  have 1: "parsear_todas_paginas urljoin [p] = Inr ?c" by (rule parsear_todas_una [OF a])
  have 2: "parsear_todas_paginas urljoin [p, p] = Inr ?c"
    by (simp add: parsear_todas_dos [OF a] position_dtype_twice)
  have 3: "distinct (map (map cell_key) (df_rows ?c))"
    using keep_first_distinct [of "map cell_key" "[]" "df_rows df"] by simp
  from 1 2 3 show "\<exists>c1 c2. parsear_todas_paginas urljoin [p] = Inr c1
        \<and> parsear_todas_paginas urljoin [p, p] = Inr c2
        \<and> c2 = c1
        \<and> df_len c2 = df_len c1
        \<and> card (set (df_rows c2)) = card (set (df_rows c1))
        \<and> distinct (map (map cell_key) (df_rows c1))"
    by blast
qed

theorem consolidar_pagina_repetida_witness:
  "(\<exists>df. parsear_pagina urljoin_ejemplo soup_dos_filas = Inr df \<and> df_len df = 2)
   \<and> (\<exists>c. parsear_todas_paginas urljoin_ejemplo [soup_dos_filas] = Inr c
          \<and> parsear_todas_paginas urljoin_ejemplo [soup_dos_filas, soup_dos_filas] = Inr c
          \<and> df_len c = 1)"
proof -
  let ?df = "\<lparr>df_columns = [''proceso'', ''entidad'', ''url_detalle''],
        df_dtypes = [DObject, DObject, DObject],
        df_rows =
          [[PyStr ''2023-OP-005'', PyStr ''UNIVERSIDAD'',
            PyStr ''https://www.contratos.gov.co/consultas/detalleProceso.do?id=5''],
           [PyStr ''2023-OP-005'', PyStr ''UNIVERSIDAD'',
            PyStr ''https://www.contratos.gov.co/consultas/detalleProceso.do?id=5'']]\<rparr>"
  have p: "parsear_pagina urljoin_ejemplo soup_dos_filas = Inr ?df" by code_simp
  have l: "df_len ?df = 2" by (simp add: df_len_def)
  have n: "\<exists>c. parsear_todas_paginas urljoin_ejemplo [soup_dos_filas] = Inr c \<and> df_len c = 1"
    by (simp add: parsear_todas_una [OF p] df_len_def cell_key_def isna_def)
  from consolidar_pagina_repetida [of urljoin_ejemplo soup_dos_filas ?df] p n
  have "\<exists>c. parsear_todas_paginas urljoin_ejemplo [soup_dos_filas] = Inr c
          \<and> parsear_todas_paginas urljoin_ejemplo [soup_dos_filas, soup_dos_filas] = Inr c
          \<and> df_len c = 1"
    by auto
  with p l show ?thesis by blast
qed

subsection \<open>Merging into the historical store\<close>


lemma keep_last_subset: "set (keep_last key xs) \<subseteq> set xs"
  by (induction xs) auto








subsection \<open>The search run\<close>

lemma exportar_sin_api: "filter (\<lambda>e. e = ConsultarApi) (snd (exportar m df evs)) = filter (\<lambda>e. e = ConsultarApi) evs"
  by (simp add: exportar_def split: option.splits)

lemma tras_selenium_sin_api: "filter (\<lambda>e. e = ConsultarApi) (eventos (tras_selenium m)) = []"
  by (simp add: tras_selenium_def intento_selenium_def split: option.splits prod.splits)

lemma tras_selenium_df: "df_limpio (tras_selenium m) = fst (intento_selenium m)"
  by (simp add: tras_selenium_def split: prod.splits)

lemma tras_selenium_exc: "exc_selenium (tras_selenium m) = None"
  by (simp add: tras_selenium_def split: prod.splits)

lemma via_api_una: "llamadas_api (via_api m (tras_selenium m)) = 1"
  by (simp add: llamadas_api_def via_api_def manejar_error_api_def tras_selenium_exc
      tras_selenium_sin_api exportar_sin_api split: sum.splits)

lemma llamadas_api_caracterizacion:
  "llamadas_api (ejecutar_modo_busqueda m) = (if necesita_api (fst (intento_selenium m)) then 1 else 0)"
  by (simp add: ejecutar_modo_busqueda_def Let_def necesita_api_def tras_selenium_df via_api_una
      split: option.splits)
     (simp add: llamadas_api_def exportar_sin_api tras_selenium_sin_api)

lemma error_antes_de_asignar:
  assumes "m_crear_driver m = Some e \<or> (\<exists>e. bloque_scraping m = (None, Some e))"
  shows "fst (intento_selenium m) = None"
  using assms by (auto simp: intento_selenium_def split: option.splits)

lemma bloque_scraping_casos:
  "(\<exists>e. bloque_scraping m = (None, Some e)) \<or> (\<exists>d. bloque_scraping m = (Some d, None))"
  by (simp add: bloque_scraping_def split: sum.splits)

lemma nunca_informa: "\<not> informa_ambas_causas (ejecutar_modo_busqueda m)"
proof -
  have e: "\<not> list_ex (\<lambda>e. case e of InformeFallo _ _ \<Rightarrow> True | _ \<Rightarrow> False) (eventos (tras_selenium m))"
    by (simp add: tras_selenium_def intento_selenium_def split: option.splits prod.splits)
  have x: "list_ex (\<lambda>e. case e of InformeFallo _ _ \<Rightarrow> True | _ \<Rightarrow> False) (snd (exportar m df evs))
        = list_ex (\<lambda>e. case e of InformeFallo _ _ \<Rightarrow> True | _ \<Rightarrow> False) evs" for df evs
    by (simp add: exportar_def split: option.splits)
  show ?thesis
    using e
    by (simp add: informa_ambas_causas_def ejecutar_modo_busqueda_def Let_def via_api_def
        manejar_error_api_def tras_selenium_exc x split: option.splits sum.splits)
qed

text \<open>
  C1. The run queries the open-data service once when the browser path left no cleaned
  frame or an empty one, and not at all otherwise. So an error raised before the cleaned
  frame is assigned (creating the driver, scraping, consolidating, cleaning) leads to
  exactly one query, a successful browser path with zero rows too, and a browser path
  with at least one row (and a column) to none. But an error of the browser path does not
  always lead to the query: when the frame has been obtained and closing the driver then
  raises, the error is caught and logged and the service is not queried.
\<close>

theorem fallback_una_vez:
  "llamadas_api (ejecutar_modo_busqueda m)
     = (if necesita_api (fst (intento_selenium m)) then 1 else 0)
   \<and> (m_crear_driver m = Some e \<or> (\<exists>e'. bloque_scraping m = (None, Some e')) \<longrightarrow>
        llamadas_api (ejecutar_modo_busqueda m) = 1)
   \<and> (fst (intento_selenium m) = Some d \<and> df_len d = 0 \<longrightarrow>
        llamadas_api (ejecutar_modo_busqueda m) = 1)
   \<and> (fst (intento_selenium m) = Some d \<and> 0 < df_len d \<and> df_columns d \<noteq> [] \<longrightarrow>
        llamadas_api (ejecutar_modo_busqueda m) = 0)
   \<and> fst (snd (intento_selenium mundo_cierre_falla)) = Some error_red
   \<and> LogFalloSelenium error_red \<in> set (snd (ejecutar_modo_busqueda mundo_cierre_falla))
   \<and> llamadas_api (ejecutar_modo_busqueda mundo_cierre_falla) = 0"
proof -
  note c = llamadas_api_caracterizacion
  have 1: "llamadas_api (ejecutar_modo_busqueda m) = 1"
    if "m_crear_driver m = Some e \<or> (\<exists>e'. bloque_scraping m = (None, Some e'))"
    using error_antes_de_asignar [OF that] by (simp add: c necesita_api_def)
  have 2: "llamadas_api (ejecutar_modo_busqueda m) = 1"
    if "fst (intento_selenium m) = Some d \<and> df_len d = 0"
    using that by (simp add: c necesita_api_def df_empty_def df_len_def)
  have 3: "llamadas_api (ejecutar_modo_busqueda m) = 0"
    if "fst (intento_selenium m) = Some d \<and> 0 < df_len d \<and> df_columns d \<noteq> []"
    using that by (simp add: c necesita_api_def df_empty_def df_len_def)
  have 4: "fst (snd (intento_selenium mundo_cierre_falla)) = Some error_red" by code_simp
  have 5: "LogFalloSelenium error_red \<in> set (snd (ejecutar_modo_busqueda mundo_cierre_falla))"
    by code_simp
  have 6: "llamadas_api (ejecutar_modo_busqueda mundo_cierre_falla) = 0" by code_simp
  from c 1 2 3 4 5 6 show ?thesis by blast
qed

theorem fallback_una_vez_witness:
  "m_crear_driver mundo_api_vacia = Some error_red
   \<and> llamadas_api (ejecutar_modo_busqueda mundo_api_vacia) = 1
   \<and> fst (intento_selenium mundo_selenium_vacio) = Some df_sin_filas
   \<and> df_len df_sin_filas = 0
   \<and> llamadas_api (ejecutar_modo_busqueda mundo_selenium_vacio) = 1
   \<and> (\<exists>d. fst (intento_selenium mundo_base) = Some d \<and> 0 < df_len d \<and> df_columns d \<noteq> [])
   \<and> llamadas_api (ejecutar_modo_busqueda mundo_base) = 0"
proof -
  have a: "m_crear_driver mundo_api_vacia = Some error_red" by code_simp
  have b: "fst (intento_selenium mundo_selenium_vacio) = Some df_sin_filas \<and> df_len df_sin_filas = 0"
    by code_simp
  let ?d = "\<lparr>df_columns = [''proceso'', ''entidad'', ''url_detalle''],
       df_dtypes = [DObject, DObject, DObject],
       df_rows =
         [[PyStr ''2023-OP-005'', PyStr ''UNIVERSIDAD'',
           PyStr ''https://www.contratos.gov.co/consultas/detalleProceso.do?id=5'']]\<rparr>"
  have d: "fst (intento_selenium mundo_base) = Some ?d \<and> 0 < df_len ?d \<and> df_columns ?d \<noteq> []"
    by code_simp
  from fallback_una_vez [of mundo_api_vacia error_red] a
  have 1: "llamadas_api (ejecutar_modo_busqueda mundo_api_vacia) = 1" by blast
  from fallback_una_vez [of mundo_selenium_vacio _ df_sin_filas] b
  have 2: "llamadas_api (ejecutar_modo_busqueda mundo_selenium_vacio) = 1" by blast
  from fallback_una_vez [of mundo_base _ ?d] d
  have 3: "llamadas_api (ejecutar_modo_busqueda mundo_base) = 0" by blast
  from a b d 1 2 3 show ?thesis by blast
qed

text \<open>
  C2 (as amended). Take a run that queries the open-data service, that is, whose browser
  path left no cleaned frame or an empty one. If the service returns an empty result, the
  run gives the notice that there are no results and returns 0, without exporting. If the
  service raises, or the cleaning of its records does, the run exports nothing and does
  not return 0.
\<close>

theorem fallback_sin_datos:
  "necesita_api (fst (intento_selenium m)) \<longrightarrow>
     (m_consultar_desde_params m = Inr df_api \<and> df_empty df_api \<longrightarrow>
        fst (ejecutar_modo_busqueda m) = Retorna 0
        \<and> AvisoSinResultados \<in> set (snd (ejecutar_modo_busqueda m))
        \<and> \<not> exportado (ejecutar_modo_busqueda m))
     \<and> (m_consultar_desde_params m = Inl exc_api
          \<or> (m_consultar_desde_params m = Inr df_api \<and> \<not> df_empty df_api
              \<and> m_limpiar_dataframe m df_api = Inl exc_api) \<longrightarrow>
        fst (ejecutar_modo_busqueda m) \<noteq> Retorna 0
        \<and> LogErrorApi exc_api \<in> set (snd (ejecutar_modo_busqueda m))
        \<and> \<not> exportado (ejecutar_modo_busqueda m))"
proof
  assume n: "necesita_api (fst (intento_selenium m))"
  have x: "\<not> list_ex (\<lambda>e. case e of Exportar _ \<Rightarrow> True | _ \<Rightarrow> False) (eventos (tras_selenium m))"
    by (simp add: tras_selenium_def intento_selenium_def split: option.splits prod.splits)
  from n have r: "ejecutar_modo_busqueda m = via_api m (tras_selenium m)"
    by (simp add: ejecutar_modo_busqueda_def Let_def necesita_api_def tras_selenium_df
        split: option.splits)
  have 1: "fst (ejecutar_modo_busqueda m) = Retorna 0
        \<and> AvisoSinResultados \<in> set (snd (ejecutar_modo_busqueda m))
        \<and> \<not> exportado (ejecutar_modo_busqueda m)"
    if "m_consultar_desde_params m = Inr df_api \<and> df_empty df_api"
    using that x by (simp add: r via_api_def exportado_def)
  have 2: "fst (ejecutar_modo_busqueda m) \<noteq> Retorna 0
        \<and> LogErrorApi exc_api \<in> set (snd (ejecutar_modo_busqueda m))
        \<and> \<not> exportado (ejecutar_modo_busqueda m)"
    if "m_consultar_desde_params m = Inl exc_api
          \<or> (m_consultar_desde_params m = Inr df_api \<and> \<not> df_empty df_api
              \<and> m_limpiar_dataframe m df_api = Inl exc_api)"
    using that x
    by (auto simp: r via_api_def exportado_def manejar_error_api_def tras_selenium_exc)
  from 1 2 show "(m_consultar_desde_params m = Inr df_api \<and> df_empty df_api \<longrightarrow>
        fst (ejecutar_modo_busqueda m) = Retorna 0
        \<and> AvisoSinResultados \<in> set (snd (ejecutar_modo_busqueda m))
        \<and> \<not> exportado (ejecutar_modo_busqueda m))
     \<and> (m_consultar_desde_params m = Inl exc_api
          \<or> (m_consultar_desde_params m = Inr df_api \<and> \<not> df_empty df_api
              \<and> m_limpiar_dataframe m df_api = Inl exc_api) \<longrightarrow>
        fst (ejecutar_modo_busqueda m) \<noteq> Retorna 0
        \<and> LogErrorApi exc_api \<in> set (snd (ejecutar_modo_busqueda m))
        \<and> \<not> exportado (ejecutar_modo_busqueda m))"
    by blast
qed

theorem fallback_sin_datos_witness:
  "necesita_api (fst (intento_selenium mundo_api_vacia))
   \<and> m_consultar_desde_params mundo_api_vacia = Inr df_sin_filas \<and> df_empty df_sin_filas
   \<and> fst (ejecutar_modo_busqueda mundo_api_vacia) = Retorna 0
   \<and> \<not> exportado (ejecutar_modo_busqueda mundo_api_vacia)
   \<and> necesita_api (fst (intento_selenium mundo_api_falla))
   \<and> m_consultar_desde_params mundo_api_falla = Inl error_red
   \<and> fst (ejecutar_modo_busqueda mundo_api_falla) \<noteq> Retorna 0
   \<and> \<not> exportado (ejecutar_modo_busqueda mundo_api_falla)"
proof -
  have a: "necesita_api (fst (intento_selenium mundo_api_vacia))" by code_simp
  have b: "m_consultar_desde_params mundo_api_vacia = Inr df_sin_filas \<and> df_empty df_sin_filas"
    by code_simp
  have c: "necesita_api (fst (intento_selenium mundo_api_falla))" by code_simp
  have d: "m_consultar_desde_params mundo_api_falla = Inl error_red" by code_simp
  from fallback_sin_datos [of mundo_api_vacia df_sin_filas] a b
  have 1: "fst (ejecutar_modo_busqueda mundo_api_vacia) = Retorna 0
      \<and> \<not> exportado (ejecutar_modo_busqueda mundo_api_vacia)"
    by blast
  from fallback_sin_datos [of mundo_api_falla _ error_red] c d
  have 2: "fst (ejecutar_modo_busqueda mundo_api_falla) \<noteq> Retorna 0
      \<and> \<not> exportado (ejecutar_modo_busqueda mundo_api_falla)"
    by blast
  from a b c d 1 2 show ?thesis by blast
qed

text \<open>
  The claim as stated fails where the open-data service returns an empty result after the
  driver could not be created: the run returns 0, which is success, and prints no message
  with the two causes.
\<close>

theorem fallback_vacio_retorna_cero:
  "m_crear_driver mundo_api_vacia = Some error_red
   \<and> m_consultar_desde_params mundo_api_vacia = Inr df_sin_filas
   \<and> df_empty df_sin_filas
   \<and> ejecutar_modo_busqueda mundo_api_vacia
       = (Retorna 0, [CrearDriver, LogFalloSelenium error_red, ConsultarApi, AvisoSinResultados])
   \<and> \<not> informa_ambas_causas (ejecutar_modo_busqueda mundo_api_vacia)"
  by code_simp

end
